theory Spec2Isabelle
  imports Complex_Main
begin

section \<open>Values of the decoded payload\<close>

text \<open>
  The consumer decodes each broker message with \<^verbatim>\<open>json.loads\<close> and hands the resulting
  dictionary to \<^verbatim>\<open>EventStorageService\<close>. A Python float is modelled by its exact rational
  value or one of the three special values that \<^verbatim>\<open>float()\<close> and the JSON decoder can
  produce (\<^verbatim>\<open>Infinity\<close>, \<^verbatim>\<open>-Infinity\<close>, \<^verbatim>\<open>NaN\<close>); the rounding of float
  arithmetic is not modelled. A JSON number written without fraction or exponent decodes to
  a Python \<^verbatim>\<open>int\<close>, which has no bound (\<open>JInt\<close>); every other JSON number, and the three
  tokens above, decode to a float (\<open>JNum\<close>).
\<close>

datatype pyfloat = Fin rat | PInf | NInf | NaN

datatype jval =
    JNull
  | JBool bool
  | JInt int
  | JNum pyfloat
  | JStr string
  | JArr "jval list"
  | JObj "(string \<times> jval) list"

text \<open>
  The payload dictionary. The interface fixes \<^verbatim>\<open>user_id\<close>, \<^verbatim>\<open>event_id\<close>,
  \<^verbatim>\<open>event_type\<close> and the profile fields as strings, so these are strings here and
  \<open>None\<close> is an absent key (what \<^verbatim>\<open>event_data.get\<close> returns for it). The fields the
  code inspects dynamically (\<^verbatim>\<open>timestamp\<close>, \<^verbatim>\<open>amount\<close>, \<^verbatim>\<open>duration\<close>,
  \<^verbatim>\<open>event_metadata\<close>) keep their raw JSON value.
\<close>

record payload =
  p_user_id :: "string option"
  p_event_id :: "string option"
  p_event_type :: "string option"
  p_timestamp :: "jval option"
  p_amount :: "jval option"
  p_duration :: "jval option"
  p_email :: "string option"
  p_first_name :: "string option"
  p_last_name :: "string option"
  p_country :: "string option"
  p_event_metadata :: "jval option"

text \<open>
  The Python built-ins the service calls on strings are parameters of the model:
  \<^verbatim>\<open>datetime.fromisoformat\<close>, \<^verbatim>\<open>float\<close> and \<^verbatim>\<open>Decimal\<close> on a string
  (\<open>None\<close> when they raise), \<^verbatim>\<open>repr\<close> of a string, and the text an f-string produces
  for a value and for the set of missing field names (whose element order Python leaves
  open).
\<close>

record pyenv =
  fromisoformat :: "string \<Rightarrow> int option"
  float_of_str :: "string \<Rightarrow> pyfloat option"
  decimal_of_str :: "string \<Rightarrow> pyfloat option"
  repr_str :: "string \<Rightarrow> string"
  format_value :: "jval \<Rightarrow> string"
  format_fields :: "string list \<Rightarrow> string"

datatype exc =
    ValueError string
  | TypeError string
  | OverflowError string
  | InvalidOperation string
  | IntegrityError string
  | SQLAlchemyError string string

text \<open>\<^verbatim>\<open>type(e).__name__\<close> and \<^verbatim>\<open>str(e)\<close>; \<open>SQLAlchemyError cls msg\<close> is any
  storage-layer error other than an \<^verbatim>\<open>IntegrityError\<close>, of class \<open>cls\<close>.\<close>

primrec class_name :: "exc \<Rightarrow> string" where
  "class_name (ValueError m) = ''ValueError''"
| "class_name (TypeError m) = ''TypeError''"
| "class_name (OverflowError m) = ''OverflowError''"
| "class_name (InvalidOperation m) = ''InvalidOperation''"
| "class_name (IntegrityError m) = ''IntegrityError''"
| "class_name (SQLAlchemyError c m) = c"

primrec message :: "exc \<Rightarrow> string" where
  "message (ValueError m) = m"
| "message (TypeError m) = m"
| "message (OverflowError m) = m"
| "message (InvalidOperation m) = m"
| "message (IntegrityError m) = m"
| "message (SQLAlchemyError c m) = m"

primrec is_ValueError :: "exc \<Rightarrow> bool" where
  "is_ValueError (ValueError m) = True"
| "is_ValueError (TypeError m) = False"
| "is_ValueError (OverflowError m) = False"
| "is_ValueError (InvalidOperation m) = False"
| "is_ValueError (IntegrityError m) = False"
| "is_ValueError (SQLAlchemyError c m) = False"

subsection \<open>Python's conversions and truth test\<close>

definition apostrophe :: string where
  "apostrophe = [CHR 0x27]"

text \<open>
  \<^verbatim>\<open>float(v)\<close>. A float is itself and a bool is 0 or 1. An \<^verbatim>\<open>int\<close> is rounded to the
  nearest float, ties to even: the largest float is \<open>2 ^ 1024 - 2 ^ 971\<close>, so an integer of
  magnitude below \<open>2 ^ 1024 - 2 ^ 970\<close> converts (the model keeps its exact value) and
  any other raises \<^verbatim>\<open>OverflowError\<close>. A string is parsed, and one that is no number raises
  \<^verbatim>\<open>ValueError\<close> with the string's \<^verbatim>\<open>repr\<close> in the text. Anything else raises
  \<^verbatim>\<open>TypeError\<close>, whose text names the type (in the wording of CPython 3.10 and later).
\<close>

definition float_max_int :: int where
  "float_max_int = 2 ^ 1024 - 2 ^ 970"

definition float_type_error :: "string \<Rightarrow> string" where
  "float_type_error type_name =
     ''float() argument must be a string or a real number, not '' @
       apostrophe @ type_name @ apostrophe"

primrec py_float :: "pyenv \<Rightarrow> jval \<Rightarrow> exc + pyfloat" where
  "py_float E JNull = Inl (TypeError (float_type_error ''NoneType''))"
| "py_float E (JBool b) = Inr (Fin (if b then 1 else 0))"
| "py_float E (JInt n) =
     (if \<bar>n\<bar> < float_max_int then Inr (Fin (of_int n))
      else Inl (OverflowError ''int too large to convert to float''))"
| "py_float E (JNum f) = Inr f"
| "py_float E (JStr s) =
     (case float_of_str E s of
        None \<Rightarrow> Inl (ValueError (''could not convert string to float: '' @ repr_str E s))
      | Some f \<Rightarrow> Inr f)"
| "py_float E (JArr xs) = Inl (TypeError (float_type_error ''list''))"
| "py_float E (JObj kvs) = Inl (TypeError (float_type_error ''dict''))"

text \<open>\<^verbatim>\<open>Decimal(str(v))\<close>: the text of a number is that number; the text of a string is the
  string; the text of anything else is no decimal literal.\<close>

primrec py_decimal :: "pyenv \<Rightarrow> jval \<Rightarrow> exc + pyfloat" where
  "py_decimal E JNull = Inl (InvalidOperation ''ConversionSyntax'')"
| "py_decimal E (JBool b) = Inl (InvalidOperation ''ConversionSyntax'')"
| "py_decimal E (JInt n) = Inr (Fin (of_int n))"
| "py_decimal E (JNum f) = Inr f"
| "py_decimal E (JStr s) =
     (case decimal_of_str E s of
        None \<Rightarrow> Inl (InvalidOperation ''ConversionSyntax'')
      | Some f \<Rightarrow> Inr f)"
| "py_decimal E (JArr xs) = Inl (InvalidOperation ''ConversionSyntax'')"
| "py_decimal E (JObj kvs) = Inl (InvalidOperation ''ConversionSyntax'')"

text \<open>The truth value of \<^verbatim>\<open>if v:\<close>. Zero, the empty string and empty containers are
  false; \<^verbatim>\<open>NaN\<close> and the infinities are true.\<close>

primrec truthy :: "jval \<Rightarrow> bool" where
  "truthy JNull = False"
| "truthy (JBool b) = b"
| "truthy (JInt n) = (n \<noteq> 0)"
| "truthy (JNum f) = (f \<noteq> Fin 0)"
| "truthy (JStr s) = (s \<noteq> [])"
| "truthy (JArr xs) = (xs \<noteq> [])"
| "truthy (JObj kvs) = (kvs \<noteq> [])"

text \<open>\<^verbatim>\<open>x <= 0\<close> on a float: false for \<^verbatim>\<open>NaN\<close>.\<close>

primrec le_zero :: "pyfloat \<Rightarrow> bool" where
  "le_zero (Fin r) = (r \<le> 0)"
| "le_zero PInf = False"
| "le_zero NInf = True"
| "le_zero NaN = False"

text \<open>Float addition, and multiplication and division by the float of an integer count.\<close>

definition fadd :: "pyfloat \<Rightarrow> pyfloat \<Rightarrow> pyfloat" where
  "fadd a b =
     (case a of
        NaN \<Rightarrow> NaN
      | Fin x \<Rightarrow> (case b of Fin y \<Rightarrow> Fin (x + y) | PInf \<Rightarrow> PInf | NInf \<Rightarrow> NInf | NaN \<Rightarrow> NaN)
      | PInf \<Rightarrow> (case b of Fin y \<Rightarrow> PInf | PInf \<Rightarrow> PInf | NInf \<Rightarrow> NaN | NaN \<Rightarrow> NaN)
      | NInf \<Rightarrow> (case b of Fin y \<Rightarrow> NInf | PInf \<Rightarrow> NaN | NInf \<Rightarrow> NInf | NaN \<Rightarrow> NaN))"

definition fmul_count :: "pyfloat \<Rightarrow> int \<Rightarrow> pyfloat" where
  "fmul_count a n =
     (case a of
        NaN \<Rightarrow> NaN
      | Fin x \<Rightarrow> Fin (x * of_int n)
      | PInf \<Rightarrow> (if 0 < n then PInf else if n < 0 then NInf else NaN)
      | NInf \<Rightarrow> (if 0 < n then NInf else if n < 0 then PInf else NaN))"

text \<open>Division is only ever by \<^verbatim>\<open>old_duration_count + 1\<close> with a positive count, so a
  zero divisor (Python's \<^verbatim>\<open>ZeroDivisionError\<close>) does not arise; the model returns
  \<^verbatim>\<open>NaN\<close> for a divisor that is not positive.\<close>

definition fdiv_count :: "pyfloat \<Rightarrow> int \<Rightarrow> pyfloat" where
  "fdiv_count a n =
     (if n \<le> 0 then NaN
      else case a of
        NaN \<Rightarrow> NaN
      | Fin x \<Rightarrow> Fin (x / of_int n)
      | PInf \<Rightarrow> PInf
      | NInf \<Rightarrow> NInf)"

section \<open>Event validation\<close>

definition REQUIRED_FIELDS :: "string list" where
  "REQUIRED_FIELDS = [''user_id'', ''event_id'', ''event_type'', ''timestamp'']"

definition VALID_EVENT_TYPES :: "string list" where
  "VALID_EVENT_TYPES =
     [''click'', ''purchase'', ''view'', ''search'', ''login'', ''logout'', ''video'', ''other'']"

text \<open>The keys of the payload dictionary.\<close>

definition payload_keys :: "payload \<Rightarrow> string list" where
  "payload_keys p =
     (if p_user_id p = None then [] else [''user_id'']) @
     (if p_event_id p = None then [] else [''event_id'']) @
     (if p_event_type p = None then [] else [''event_type'']) @
     (if p_timestamp p = None then [] else [''timestamp'']) @
     (if p_amount p = None then [] else [''amount'']) @
     (if p_duration p = None then [] else [''duration'']) @
     (if p_email p = None then [] else [''email'']) @
     (if p_first_name p = None then [] else [''first_name'']) @
     (if p_last_name p = None then [] else [''last_name'']) @
     (if p_country p = None then [] else [''country'']) @
     (if p_event_metadata p = None then [] else [''event_metadata''])"

text \<open>
  The amount rule for purchases: \<^verbatim>\<open>event_data.get("amount")\<close> is \<^verbatim>\<open>None\<close> for an
  absent key and for a JSON null. The inner handler catches the \<^verbatim>\<open>TypeError\<close> and the
  \<^verbatim>\<open>ValueError\<close> of \<^verbatim>\<open>float()\<close>; its \<^verbatim>\<open>OverflowError\<close> reaches the outer
  \<^verbatim>\<open>except Exception\<close> of \<^verbatim>\<open>validate_event\<close>.
\<close>

definition validate_amount :: "pyenv \<Rightarrow> payload \<Rightarrow> bool \<times> string option" where
  "validate_amount E p =
     (if p_event_type p = Some ''purchase'' then
        (case p_amount p of
           None \<Rightarrow> (False, Some (''Purchase event missing '' @ apostrophe @ ''amount'' @ apostrophe))
         | Some JNull \<Rightarrow>
             (False, Some (''Purchase event missing '' @ apostrophe @ ''amount'' @ apostrophe))
         | Some amount \<Rightarrow>
             (case py_float E amount of
                Inl e \<Rightarrow>
                  (case e of
                     TypeError m \<Rightarrow> (False, Some (''Amount not numeric: '' @ format_value E amount))
                   | ValueError m \<Rightarrow> (False, Some (''Amount not numeric: '' @ format_value E amount))
                   | _ \<Rightarrow> (False, Some (''Validation error: '' @ message e)))
              | Inr f \<Rightarrow>
                  if le_zero f
                  then (False, Some (''Invalid amount: '' @ format_value E (JNum f) @
                                     '' (must be positive)''))
                  else (True, None)))
      else (True, None))"

text \<open>\<^verbatim>\<open>validate_event\<close>: the required fields, then the timestamp, then the amount of a
  purchase. An unknown event type only logs a warning. A timestamp that is not a string
  makes \<^verbatim>\<open>fromisoformat\<close> raise \<^verbatim>\<open>TypeError\<close>, which the outer handler turns into
  a failure.\<close>

definition validate_event :: "pyenv \<Rightarrow> payload \<Rightarrow> bool \<times> string option" where
  "validate_event E p =
     (let missing = filter (\<lambda>k. k \<notin> set (payload_keys p)) REQUIRED_FIELDS in
      if missing \<noteq> [] then (False, Some (''Missing required fields: '' @ format_fields E missing))
      else
        (case p_timestamp p of
           None \<Rightarrow> (False, Some (''Validation error: '' @ apostrophe @ ''timestamp'' @ apostrophe))
         | Some (JStr ts) \<Rightarrow>
             (case fromisoformat E ts of
                None \<Rightarrow> (False, Some (''Invalid timestamp format: '' @ ts))
              | Some t \<Rightarrow> validate_amount E p)
         | Some v \<Rightarrow>
             (False, Some ''Validation error: fromisoformat: argument must be str'')))"

section \<open>The database and the session\<close>

text \<open>
  The four tables of \<^verbatim>\<open>models.py\<close>, each a list of rows in insertion order. Identifier
  columns hold what \<^verbatim>\<open>event_data.get\<close> returned. The \<^verbatim>\<open>duration\<close> column of an
  event holds the payload's raw value (\<^verbatim>\<open>duration=event_data.get("duration")\<close>); it is
  SQL \<^verbatim>\<open>NULL\<close> when the key is absent or null. Generated keys and audit timestamps are
  left out. Timestamps are integers (the instant \<^verbatim>\<open>fromisoformat\<close> returns).
\<close>

record user_row =
  u_user_id :: "string option"
  u_email :: "string option"
  u_first_name :: "string option"
  u_last_name :: "string option"
  u_country :: "string option"
  u_signup_date :: int
  u_is_active :: bool

record event_row =
  e_event_id :: "string option"
  e_user_id :: "string option"
  e_event_type :: "string option"
  e_timestamp :: int
  e_duration :: "jval option"
  e_event_metadata :: jval

record stats_row =
  s_user_id :: "string option"
  total_events :: int
  total_purchases :: int
  total_spent :: pyfloat
  last_active :: "int option"
  last_purchase :: "int option"
  avg_session_duration :: pyfloat
  engagement_score :: pyfloat
  churn_risk :: pyfloat

record dlq_row =
  d_event_id :: "string option"
  d_event_data :: payload
  d_error_message :: string
  d_error_type :: string
  d_status :: string
  d_retry_count :: int

record database =
  users :: "user_row list"
  user_events :: "event_row list"
  user_stats :: "stats_row list"
  dead_letter_queue :: "dlq_row list"

text \<open>
  A SQLAlchemy session: the committed database and the transaction's working copy, which
  queries read and flushes write. \<^verbatim>\<open>commit\<close> publishes the working copy,
  \<^verbatim>\<open>rollback\<close> discards it.
\<close>

record session =
  committed :: database
  working :: database

definition SessionLocal :: "database \<Rightarrow> session" where
  "SessionLocal d = \<lparr>committed = d, working = d\<rparr>"

definition rollback :: "session \<Rightarrow> session" where
  "rollback s = s\<lparr>working := committed s\<rparr>"

definition commit :: "session \<Rightarrow> session" where
  "commit s = s\<lparr>committed := working s\<rparr>"

text \<open>
  Every statement sent to the database can fail for reasons outside the program (connection
  loss, timeout, deadlock, a constraint violated by a concurrent writer or by a column the
  program does not check). The environment decides this per database operation of
  \<^verbatim>\<open>store_event\<close>: \<open>None\<close> lets the operation succeed. An integrity error carries the
  kind of constraint that was violated and the text \<^verbatim>\<open>str(e)\<close>, in which SQLAlchemy
  quotes the database's message, the statement and its parameters; the program reads only
  the text.
\<close>

datatype db_op =
    QueryEvent | QueryUser | FlushUser | CountDurations | FlushEvent
  | QueryStats | FlushStats | Commit

datatype violation = UniqueViolation | NotNullViolation | ForeignKeyViolation | CheckViolation

datatype db_error = IntegrityErr violation string | OtherDbErr string string

type_synonym faults = "db_op \<Rightarrow> db_error option"

primrec raise_db :: "db_error \<Rightarrow> exc" where
  "raise_db (IntegrityErr kind m) = IntegrityError m"
| "raise_db (OtherDbErr c m) = SQLAlchemyError c m"

definition no_faults :: faults where
  "no_faults = (\<lambda>op. None)"

section \<open>Storing an event\<close>

text \<open>\<^verbatim>\<open>min(100.0, total_events * 0.5 + total_purchases * 5.0)\<close>; Python's \<^verbatim>\<open>min\<close>
  returns its first argument unless the second is smaller.\<close>

definition engagement :: "int \<Rightarrow> int \<Rightarrow> rat" where
  "engagement te tp =
     (let x = of_int te * (1 / 2) + of_int tp * 5 in if x < 100 then x else 100)"

text \<open>The running average, updated before \<^verbatim>\<open>total_events\<close> is incremented.\<close>

definition update_average :: "pyfloat option \<Rightarrow> int option \<Rightarrow> stats_row \<Rightarrow> stats_row" where
  "update_average duration old_duration_count stats =
     (case duration of
        None \<Rightarrow> stats
      | Some d \<Rightarrow>
          (case old_duration_count of
             None \<Rightarrow> stats
           | Some n \<Rightarrow>
               if 0 < n
               then stats\<lparr>avg_session_duration :=
                      fdiv_count (fadd (fmul_count (avg_session_duration stats) n) d) (n + 1)\<rparr>
               else stats\<lparr>avg_session_duration := d\<rparr>))"

text \<open>The in-memory updates of the statistics object, lines 208 to 238: average, event
  count and last activity, the purchase fields, the engagement score.\<close>

definition update_stats ::
  "pyenv \<Rightarrow> payload \<Rightarrow> int \<Rightarrow> pyfloat option \<Rightarrow> int option \<Rightarrow> stats_row \<Rightarrow> exc + stats_row" where
  "update_stats E p timestamp duration old_duration_count stats0 =
     (let stats1 = update_average duration old_duration_count stats0;
          stats2 = stats1\<lparr>total_events := total_events stats1 + 1,
                          last_active := Some timestamp\<rparr>;
          score = (\<lambda>st. st\<lparr>engagement_score :=
                     Fin (engagement (total_events st) (total_purchases st))\<rparr>)
      in if p_event_type p = Some ''purchase'' then
           (case py_decimal E (case p_amount p of None \<Rightarrow> JInt 0 | Some a \<Rightarrow> a) of
              Inl e \<Rightarrow> Inl e
            | Inr amount \<Rightarrow>
                Inr (score (stats2\<lparr>total_purchases := total_purchases stats2 + 1,
                                    total_spent := fadd (total_spent stats2) amount,
                                    last_purchase := Some timestamp\<rparr>)))
         else Inr (score stats2))"

text \<open>A fresh \<^verbatim>\<open>UserStats(user_id=...)\<close> with the column defaults.\<close>

definition new_stats :: "string option \<Rightarrow> stats_row" where
  "new_stats uid =
     \<lparr>s_user_id = uid, total_events = 0, total_purchases = 0, total_spent = Fin 0,
      last_active = None, last_purchase = None, avg_session_duration = Fin 0,
      engagement_score = Fin 0, churn_risk = Fin 0\<rparr>"

text \<open>The update statement for the one statistics object the session loaded with
  \<^verbatim>\<open>.first()\<close>: it replaces the first row of that user.\<close>

primrec write_stats :: "stats_row \<Rightarrow> stats_row list \<Rightarrow> stats_row list" where
  "write_stats st [] = []"
| "write_stats st (r # rs) =
     (if s_user_id r = s_user_id st then st # rs else r # write_stats st rs)"

text \<open>\<^verbatim>\<open>UserEvent.duration.isnot(None)\<close>.\<close>

definition has_duration :: "event_row \<Rightarrow> bool" where
  "has_duration r = (e_duration r \<noteq> None \<and> e_duration r \<noteq> Some JNull)"

definition parse_timestamp :: "pyenv \<Rightarrow> jval option \<Rightarrow> exc + int" where
  "parse_timestamp E v =
     (case v of
        Some (JStr ts) \<Rightarrow>
          (case fromisoformat E ts of
             None \<Rightarrow> Inl (ValueError (''Invalid isoformat string: '' @ ts))
           | Some t \<Rightarrow> Inr t)
      | _ \<Rightarrow> Inl (TypeError ''fromisoformat: argument must be str''))"

text \<open>Step 6: commit.\<close>

definition step6_commit ::
  "faults \<Rightarrow> session \<Rightarrow> payload \<Rightarrow> (exc + string option) \<times> session" where
  "step6_commit F s p =
     (case F Commit of
        Some err \<Rightarrow> (Inl (raise_db err), s)
      | None \<Rightarrow> (Inr (p_event_id p), commit s))"

text \<open>Step 5, second half: update the loaded statistics object and commit; the changed
  object is written with the commit's flush.\<close>

definition step5_update ::
  "pyenv \<Rightarrow> faults \<Rightarrow> session \<Rightarrow> payload \<Rightarrow> int \<Rightarrow> pyfloat option \<Rightarrow> int option \<Rightarrow> stats_row
     \<Rightarrow> (exc + string option) \<times> session" where
  "step5_update E F s p timestamp duration old_duration_count stats =
     (case update_stats E p timestamp duration old_duration_count stats of
        Inl e \<Rightarrow> (Inl e, s)
      | Inr stats' \<Rightarrow>
          step6_commit F
            (s\<lparr>working := (working s)\<lparr>user_stats := write_stats stats' (user_stats (working s))\<rparr>\<rparr>)
            p)"

text \<open>Step 5, first half: load the user's statistics row or create it.\<close>

definition step5_stats ::
  "pyenv \<Rightarrow> faults \<Rightarrow> session \<Rightarrow> payload \<Rightarrow> int \<Rightarrow> pyfloat option \<Rightarrow> int option
     \<Rightarrow> (exc + string option) \<times> session" where
  "step5_stats E F s p timestamp duration old_duration_count =
     (case F QueryStats of
        Some err \<Rightarrow> (Inl (raise_db err), s)
      | None \<Rightarrow>
          (case find (\<lambda>r. s_user_id r = p_user_id p) (user_stats (working s)) of
             Some stats \<Rightarrow> step5_update E F s p timestamp duration old_duration_count stats
           | None \<Rightarrow>
               (case F FlushStats of
                  Some err \<Rightarrow> (Inl (raise_db err), s)
                | None \<Rightarrow>
                    step5_update E F
                      (s\<lparr>working := (working s)\<lparr>user_stats :=
                            user_stats (working s) @ [new_stats (p_user_id p)]\<rparr>\<rparr>)
                      p timestamp duration old_duration_count (new_stats (p_user_id p)))))"

text \<open>Step 4b: insert the event row.\<close>

definition step4b_event ::
  "pyenv \<Rightarrow> faults \<Rightarrow> session \<Rightarrow> payload \<Rightarrow> int \<Rightarrow> pyfloat option \<Rightarrow> int option
     \<Rightarrow> (exc + string option) \<times> session" where
  "step4b_event E F s p timestamp duration old_duration_count =
     (case F FlushEvent of
        Some err \<Rightarrow> (Inl (raise_db err), s)
      | None \<Rightarrow>
          step5_stats E F
            (s\<lparr>working := (working s)\<lparr>user_events := user_events (working s) @
                 [\<lparr>e_event_id = p_event_id p, e_user_id = p_user_id p,
                   e_event_type = p_event_type p, e_timestamp = timestamp,
                   e_duration = p_duration p,
                   e_event_metadata =
                     (case p_event_metadata p of None \<Rightarrow> JObj [] | Some m \<Rightarrow> m)\<rparr>]\<rparr>\<rparr>)
            p timestamp duration old_duration_count)"

text \<open>Step 4a: the duration and the count of the user's earlier events that have one,
  taken before the new event is added.\<close>

definition step4a_duration ::
  "pyenv \<Rightarrow> faults \<Rightarrow> session \<Rightarrow> payload \<Rightarrow> (exc + string option) \<times> session" where
  "step4a_duration E F s p =
     (case parse_timestamp E (p_timestamp p) of
        Inl e \<Rightarrow> (Inl e, s)
      | Inr timestamp \<Rightarrow>
          (case p_duration p of
             None \<Rightarrow> step4b_event E F s p timestamp None None
           | Some duration_value \<Rightarrow>
               if truthy duration_value then
                 (case py_float E duration_value of
                    Inl e \<Rightarrow> (Inl e, s)
                  | Inr duration \<Rightarrow>
                      (case F CountDurations of
                         Some err \<Rightarrow> (Inl (raise_db err), s)
                       | None \<Rightarrow>
                           step4b_event E F s p timestamp (Some duration)
                             (Some (int (length (filter
                                (\<lambda>r. e_user_id r = p_user_id p \<and> has_duration r)
                                (user_events (working s))))))))
               else step4b_event E F s p timestamp None None))"

text \<open>Step 3: get or create the user.\<close>

definition step3_user ::
  "pyenv \<Rightarrow> faults \<Rightarrow> session \<Rightarrow> payload \<Rightarrow> (exc + string option) \<times> session" where
  "step3_user E F s p =
     (case F QueryUser of
        Some err \<Rightarrow> (Inl (raise_db err), s)
      | None \<Rightarrow>
          (case find (\<lambda>u. u_user_id u = p_user_id p) (users (working s)) of
             Some user \<Rightarrow> step4a_duration E F s p
           | None \<Rightarrow>
               (case parse_timestamp E (p_timestamp p) of
                  Inl e \<Rightarrow> (Inl e, s)
                | Inr signup \<Rightarrow>
                    (case F FlushUser of
                       Some err \<Rightarrow> (Inl (raise_db err), s)
                     | None \<Rightarrow>
                         step4a_duration E F
                           (s\<lparr>working := (working s)\<lparr>users := users (working s) @
                                [\<lparr>u_user_id = p_user_id p, u_email = p_email p,
                                  u_first_name = p_first_name p, u_last_name = p_last_name p,
                                  u_country = p_country p, u_signup_date = signup,
                                  u_is_active = True\<rparr>]\<rparr>\<rparr>)
                           p))))"

text \<open>Step 2: an event with this identifier is already stored: return the identifier.\<close>

definition step2_duplicate ::
  "pyenv \<Rightarrow> faults \<Rightarrow> session \<Rightarrow> payload \<Rightarrow> (exc + string option) \<times> session" where
  "step2_duplicate E F s p =
     (case F QueryEvent of
        Some err \<Rightarrow> (Inl (raise_db err), s)
      | None \<Rightarrow>
          (case find (\<lambda>r. e_event_id r = p_event_id p) (user_events (working s)) of
             Some existing_event \<Rightarrow> (Inr (p_event_id p), s)
           | None \<Rightarrow> step3_user E F s p))"

text \<open>The body of the \<^verbatim>\<open>try\<close> block: the result or the exception raised, and the
  session as the body left it.\<close>

definition store_event_try ::
  "pyenv \<Rightarrow> faults \<Rightarrow> session \<Rightarrow> payload \<Rightarrow> (exc + string option) \<times> session" where
  "store_event_try E F s p =
     (case validate_event E p of
        (True, error_msg) \<Rightarrow> step2_duplicate E F s p
      | (False, error_msg) \<Rightarrow>
          (Inl (ValueError (case error_msg of None \<Rightarrow> ''None'' | Some m \<Rightarrow> m)), s))"

text \<open>\<^verbatim>\<open>str.lower\<close> on ASCII letters and the substring test \<^verbatim>\<open>in\<close>.\<close>

definition lower_char :: "char \<Rightarrow> char" where
  "lower_char c =
     (let n = (of_char c :: nat) in if 65 \<le> n \<and> n \<le> 90 then char_of (n + 32) else c)"

definition lower :: "string \<Rightarrow> string" where
  "lower s = map lower_char s"

primrec starts_with :: "string \<Rightarrow> string \<Rightarrow> bool" where
  "starts_with [] s = True"
| "starts_with (c # cs) s = (case s of [] \<Rightarrow> False | d # ds \<Rightarrow> c = d \<and> starts_with cs ds)"

primrec contains :: "string \<Rightarrow> string \<Rightarrow> bool" where
  "contains sub [] = (sub = [])"
| "contains sub (c # cs) = (starts_with sub (c # cs) \<or> contains sub cs)"

text \<open>\<^verbatim>\<open>store_event\<close> with its three handlers. Each rolls back. An integrity error whose
  text names a unique constraint or a duplicate key returns \<^verbatim>\<open>None\<close>; every other
  exception is raised again.\<close>

definition store_event ::
  "pyenv \<Rightarrow> faults \<Rightarrow> session \<Rightarrow> payload \<Rightarrow> (exc + string option) \<times> session" where
  "store_event E F s p =
     (case store_event_try E F s p of
        (Inr event_id, s') \<Rightarrow> (Inr event_id, s')
      | (Inl e, s') \<Rightarrow>
          (case e of
             IntegrityError m \<Rightarrow>
               if contains ''unique constraint'' (lower m) \<or> contains ''duplicate key'' (lower m)
               then (Inr None, rollback s')
               else (Inl e, rollback s')
           | _ \<Rightarrow> (Inl e, rollback s')))"

section \<open>The dead-letter queue\<close>

text \<open>\<^verbatim>\<open>log_dead_letter\<close> adds one entry and commits in the session it is given. Any
  exception is caught: it rolls back and returns \<^verbatim>\<open>False\<close>.\<close>

definition log_dead_letter ::
  "db_error option \<Rightarrow> session \<Rightarrow> payload \<Rightarrow> string \<Rightarrow> string \<Rightarrow> string \<Rightarrow> bool \<times> session" where
  "log_dead_letter fault s event_data error_message error_type status =
     (case fault of
        Some err \<Rightarrow> (False, rollback s)
      | None \<Rightarrow>
          (True, commit (s\<lparr>working := (working s)\<lparr>dead_letter_queue :=
             dead_letter_queue (working s) @
               [\<lparr>d_event_id = p_event_id event_data, d_event_data = event_data,
                 d_error_message = error_message, d_error_type = error_type,
                 d_status = status, d_retry_count = 0\<rparr>]\<rparr>\<rparr>)))"

section \<open>The consumer loop\<close>

record consumer_state =
  processed :: int
  failed :: int
  duplicates :: int
  dlq_logged :: int

text \<open>A consumed message. \<^verbatim>\<open>consume_message\<close> always puts the broker's message object
  under \<^verbatim>\<open>kafka_msg\<close>, so the check for that key in \<^verbatim>\<open>commit_offset\<close> never fails
  and is left out.\<close>

record kafka_message =
  m_partition :: int
  m_offset :: int
  m_value :: payload

text \<open>
  What the loop acts on: the database, the counters, the consumer's position in each
  partition (one past the last message polled) and the offsets committed to the broker.
  \<^verbatim>\<open>consumer.commit(asynchronous=False)\<close> commits the current positions.
\<close>

record world =
  db :: database
  counters :: consumer_state
  positions :: "int \<Rightarrow> int option"
  committed_offsets :: "int \<Rightarrow> int option"

text \<open>\<^verbatim>\<open>commit_offset\<close>: whether the broker accepts the commit is the environment's;
  a failure of any kind returns \<^verbatim>\<open>False\<close>.\<close>

definition commit_offset :: "bool \<Rightarrow> world \<Rightarrow> bool \<times> world" where
  "commit_offset broker_ok w =
     (if broker_ok
      then (True, w\<lparr>committed_offsets := (\<lambda>part.
              case positions w part of None \<Rightarrow> committed_offsets w part | Some pos \<Rightarrow> Some pos)\<rparr>)
      else (False, w))"

text \<open>The truth test of \<^verbatim>\<open>if event_id:\<close> on the value \<^verbatim>\<open>store_event\<close> returned.\<close>

definition truthy_id :: "string option \<Rightarrow> bool" where
  "truthy_id r = (case r of None \<Rightarrow> False | Some i \<Rightarrow> i \<noteq> [])"

text \<open>What the environment decides while one message is processed: the database faults
  during \<^verbatim>\<open>store_event\<close>, the fault of the dead-letter write, and whether the broker
  accepts the offset commit.\<close>

record step_env =
  store_faults :: faults
  dlq_fault :: "db_error option"
  broker_ok :: bool

definition bump :: "(consumer_state \<Rightarrow> consumer_state) \<Rightarrow> world \<Rightarrow> world" where
  "bump f w = w\<lparr>counters := f (counters w)\<rparr>"

text \<open>
  The body of the loop for one polled message (lines 242 to 305 of
  \<^verbatim>\<open>user_event_consumer.py\<close>): store the event in a new session, then route the outcome.
\<close>

definition process_message :: "pyenv \<Rightarrow> step_env \<Rightarrow> kafka_message \<Rightarrow> world \<Rightarrow> world" where
  "process_message E env msg w0 =
     (let w = w0\<lparr>positions := (positions w0)(m_partition msg \<mapsto> m_offset msg + 1)\<rparr>;
          db_session = SessionLocal (db w)
      in case store_event E (store_faults env) db_session (m_value msg) of
        (Inr event_id, s) \<Rightarrow>
          if truthy_id event_id then
            (case commit_offset (broker_ok env) (w\<lparr>db := committed s\<rparr>) of
               (True, w') \<Rightarrow> bump (\<lambda>c. c\<lparr>processed := processed c + 1\<rparr>) w'
             | (False, w') \<Rightarrow> bump (\<lambda>c. c\<lparr>failed := failed c + 1\<rparr>) w')
          else
            snd (commit_offset (broker_ok env)
                   (bump (\<lambda>c. c\<lparr>duplicates := duplicates c + 1\<rparr>) (w\<lparr>db := committed s\<rparr>)))
      | (Inl e, s) \<Rightarrow>
          if is_ValueError e then
            (case log_dead_letter (dlq_fault env) (SessionLocal (committed s)) (m_value msg)
                    (message e) ''ValueError'' ''pending'' of
               (logged, s') \<Rightarrow>
                 snd (commit_offset (broker_ok env)
                        (bump (\<lambda>c. c\<lparr>dlq_logged := dlq_logged c + 1, failed := failed c + 1\<rparr>)
                           (w\<lparr>db := committed s'\<rparr>))))
          else
            (case log_dead_letter (dlq_fault env) s (m_value msg)
                    (message e) (class_name e) ''pending'' of
               (logged, s') \<Rightarrow>
                 snd (commit_offset (broker_ok env)
                        (bump (\<lambda>c. c\<lparr>dlq_logged := dlq_logged c + 1, failed := failed c + 1\<rparr>)
                           (w\<lparr>db := committed s'\<rparr>)))))"

text \<open>
  The loop over what \<^verbatim>\<open>consume_message\<close> returns, poll by poll, until the list of
  polls ends (the shutdown flag is set) or \<^verbatim>\<open>max_events\<close> is reached. A poll that
  returns \<^verbatim>\<open>None\<close> is skipped.
\<close>

primrec consume_loop ::
  "(kafka_message option \<times> step_env) list \<Rightarrow> pyenv \<Rightarrow> int option \<Rightarrow> world \<Rightarrow> world" where
  "consume_loop [] E max_events w = w"
| "consume_loop (poll # polls) E max_events w =
     (if (case max_events of None \<Rightarrow> False | Some m \<Rightarrow> m \<noteq> 0 \<and> m \<le> processed (counters w))
      then w
      else
        (case fst poll of
           None \<Rightarrow> consume_loop polls E max_events w
         | Some msg \<Rightarrow> consume_loop polls E max_events (process_message E (snd poll) msg w)))"

definition empty_database :: database where
  "empty_database = \<lparr>users = [], user_events = [], user_stats = [], dead_letter_queue = []\<rparr>"

definition initial_world :: world where
  "initial_world =
     \<lparr>db = empty_database,
      counters = \<lparr>processed = 0, failed = 0, duplicates = 0, dlq_logged = 0\<rparr>,
      positions = (\<lambda>part. None), committed_offsets = (\<lambda>part. None)\<rparr>"

section \<open>Concrete inputs\<close>

text \<open>An environment for evaluating the model: it knows the timestamp of the specification's
  scenarios, reads strings of decimal digits as numbers, quotes a string the way
  \<^verbatim>\<open>repr\<close> does when it holds no quote and nothing to escape, and prints values
  schematically.\<close>

definition digit_value :: "char \<Rightarrow> nat option" where
  "digit_value c =
     (let n = (of_char c :: nat) in if 48 \<le> n \<and> n \<le> 57 then Some (n - 48) else None)"

primrec read_digits :: "nat \<Rightarrow> string \<Rightarrow> nat option" where
  "read_digits acc [] = Some acc"
| "read_digits acc (c # cs) =
     (case digit_value c of None \<Rightarrow> None | Some d \<Rightarrow> read_digits (10 * acc + d) cs)"

definition read_number :: "string \<Rightarrow> pyfloat option" where
  "read_number s =
     (if s = [] then None
      else case read_digits 0 s of None \<Rightarrow> None | Some n \<Rightarrow> Some (Fin (of_nat n)))"

definition test_env :: pyenv where
  "test_env =
     \<lparr>fromisoformat = (\<lambda>s. if s = ''2024-01-15T10:00:00'' then Some 1705312800 else None),
      float_of_str = read_number,
      decimal_of_str = read_number,
      repr_str = (\<lambda>s. apostrophe @ s @ apostrophe),
      format_value = (\<lambda>v. ''<value>''),
      format_fields = (\<lambda>ks. ''<fields>'')\<rparr>"

definition event ::
  "string \<Rightarrow> string \<Rightarrow> string \<Rightarrow> jval option \<Rightarrow> jval option \<Rightarrow> payload" where
  "event uid eid kind amount duration =
     \<lparr>p_user_id = Some uid, p_event_id = Some eid, p_event_type = Some kind,
      p_timestamp = Some (JStr ''2024-01-15T10:00:00''), p_amount = amount,
      p_duration = duration, p_email = None, p_first_name = None, p_last_name = None,
      p_country = None, p_event_metadata = None\<rparr>"

definition ok_env :: step_env where
  "ok_env = \<lparr>store_faults = no_faults, dlq_fault = None, broker_ok = True\<rparr>"

definition msg_at :: "int \<Rightarrow> payload \<Rightarrow> kafka_message" where
  "msg_at off p = \<lparr>m_partition = 0, m_offset = off, m_value = p\<rparr>"

section \<open>Predicates used in the statements\<close>

text \<open>A statistics row whose engagement score is the formula of its own counters, with
  counters that are not negative.\<close>

definition score_ok :: "stats_row \<Rightarrow> bool" where
  "score_ok st =
     (engagement_score st = Fin (engagement (total_events st) (total_purchases st))
      \<and> 0 \<le> total_events st \<and> 0 \<le> total_purchases st)"

text \<open>The committed statistics row of the payload's user exists and carries the recomputed
  score.\<close>

definition recomputed :: "payload \<Rightarrow> session \<Rightarrow> bool" where
  "recomputed p s =
     (case find (\<lambda>x. s_user_id x = p_user_id p) (user_stats (committed s)) of
        None \<Rightarrow> False
      | Some st \<Rightarrow>
          engagement_score st = Fin (engagement (total_events st) (total_purchases st)))"

definition stats_ok :: "session \<Rightarrow> bool" where
  "stats_ok s =
     (list_all score_ok (user_stats (committed s)) \<and> list_all score_ok (user_stats (working s)))"

definition click_e1 :: payload where
  "click_e1 = event ''u1'' ''e1'' ''click'' None None"

definition stats_after_click :: stats_row where
  "stats_after_click =
     \<lparr>s_user_id = Some ''u1'', total_events = 1, total_purchases = 0, total_spent = Fin 0,
      last_active = Some 1705312800, last_purchase = None, avg_session_duration = Fin 0,
      engagement_score = Fin (1 / 2), churn_risk = Fin 0\<rparr>"

text \<open>The test of the \<^verbatim>\<open>IntegrityError\<close> handler: the error's text, in lower case, names
  a unique constraint or a duplicate key.\<close>

definition duplicate_key :: "exc \<Rightarrow> bool" where
  "duplicate_key e =
     (case e of
        IntegrityError m \<Rightarrow>
          contains ''unique constraint'' (lower m) \<or> contains ''duplicate key'' (lower m)
      | _ \<Rightarrow> False)"

text \<open>The session's view holds an event with the payload's identifier.\<close>

definition has_event :: "payload \<Rightarrow> session \<Rightarrow> bool" where
  "has_event p s = (find (\<lambda>r. e_event_id r = p_event_id p) (user_events (working s)) \<noteq> None)"

text \<open>A fault schedule in which only the commit fails, with a connection error.\<close>

definition commit_fails :: faults where
  "commit_fails =
     (\<lambda>op. if op = Commit then Some (OtherDbErr ''OperationalError'' ''connection lost'')
           else None)"

definition bad_purchase :: payload where
  "bad_purchase = event ''u1'' ''e9'' ''purchase'' (Some (JNum (Fin (- 5)))) None"

text \<open>The exceptions of the storage layer: \<^verbatim>\<open>SQLAlchemyError\<close> and its subclasses.\<close>

definition storage_error :: "exc \<Rightarrow> bool" where
  "storage_error e =
     (case e of IntegrityError m \<Rightarrow> True | SQLAlchemyError c m \<Rightarrow> True | _ \<Rightarrow> False)"

text \<open>The dead-letter entry the loop writes for a message and an exception.\<close>

definition dlq_entry :: "kafka_message \<Rightarrow> string \<Rightarrow> string \<Rightarrow> dlq_row" where
  "dlq_entry msg error_message error_type =
     \<lparr>d_event_id = p_event_id (m_value msg), d_event_data = m_value msg,
      d_error_message = error_message, d_error_type = error_type,
      d_status = ''pending'', d_retry_count = 0\<rparr>"

text \<open>A fault schedule in which a concurrent writer inserted the same event identifier
  between the lookup and the commit, so the commit violates the unique constraint.\<close>

definition commit_duplicate :: faults where
  "commit_duplicate =
     (\<lambda>op. if op = Commit
           then Some (IntegrityErr UniqueViolation
             ''duplicate key value violates unique constraint user_events_event_id_key'')
           else None)"

definition failing_env :: step_env where
  "failing_env = \<lparr>store_faults = commit_fails, dlq_fault = None, broker_ok = True\<rparr>"

definition racing_env :: step_env where
  "racing_env = \<lparr>store_faults = commit_duplicate, dlq_fault = None, broker_ok = True\<rparr>"

text \<open>
  The specification's reading of the average: the arithmetic mean of the \<^verbatim>\<open>duration\<close>
  column over the stored events of one user that have a duration. This definition follows
  the specification, not the code; it is what \<^verbatim>\<open>avg_session_duration\<close> is compared
  with. The user is named as the \<^verbatim>\<open>user_id\<close> column holds it. An event whose stored
  duration is not a number does not contribute, and a user without such events has mean 0,
  the column default.
\<close>

definition stored_durations :: "database \<Rightarrow> string option \<Rightarrow> pyfloat list" where
  "stored_durations d uid =
     concat (map (\<lambda>r. case e_duration r of
                        Some (JNum f) \<Rightarrow> [f]
                      | Some (JInt n) \<Rightarrow> [Fin (of_int n)]
                      | _ \<Rightarrow> [])
               (filter (\<lambda>r. e_user_id r = uid \<and> has_duration r) (user_events d)))"

definition spec_mean_duration :: "database \<Rightarrow> string option \<Rightarrow> pyfloat" where
  "spec_mean_duration d uid =
     (let ds = stored_durations d uid
      in if ds = [] then Fin 0 else fdiv_count (foldl fadd (Fin 0) ds) (int (length ds)))"

text \<open>Two video events of one user, the second with a duration of zero seconds, and the
  world after the loop has processed both.\<close>

definition video_10 :: payload where
  "video_10 = event ''u1'' ''e1'' ''video'' None (Some (JNum (Fin 10)))"

definition video_0 :: payload where
  "video_0 = event ''u1'' ''e2'' ''video'' None (Some (JNum (Fin 0)))"

definition after_video_10 :: world where
  "after_video_10 = process_message test_env ok_env (msg_at 0 video_10) initial_world"

definition after_both_videos :: world where
  "after_both_videos = process_message test_env ok_env (msg_at 1 video_0) after_video_10"

text \<open>The same click delivered twice.\<close>

definition click_twice :: world where
  "click_twice =
     consume_loop [(Some (msg_at 0 click_e1), ok_env), (Some (msg_at 1 click_e1), ok_env)]
       test_env None initial_world"

text \<open>A purchase whose amount is the JSON token \<^verbatim>\<open>Infinity\<close>, and video events whose
  duration is a list, the empty string, and a string that is no number.\<close>

definition infinite_purchase :: payload where
  "infinite_purchase = event ''u1'' ''e1'' ''purchase'' (Some (JNum PInf)) None"

definition list_duration :: payload where
  "list_duration = event ''u1'' ''e1'' ''video'' None (Some (JArr [JNum (Fin 1)]))"

definition empty_duration :: payload where
  "empty_duration = event ''u1'' ''e1'' ''video'' None (Some (JStr []))"

definition abc_duration :: payload where
  "abc_duration = event ''u1'' ''e1'' ''video'' None (Some (JStr ''abc''))"

text \<open>The payload passes the rules that precede the amount rule.\<close>

definition reaches_amount_rule :: "pyenv \<Rightarrow> payload \<Rightarrow> bool" where
  "reaches_amount_rule E p =
     (p_user_id p \<noteq> None \<and> p_event_id p \<noteq> None \<and> p_event_type p = Some ''purchase''
      \<and> (case p_timestamp p of Some (JStr ts) \<Rightarrow> fromisoformat E ts \<noteq> None | _ \<Rightarrow> False))"

definition missing_amount :: string where
  "missing_amount = ''Purchase event missing '' @ apostrophe @ ''amount'' @ apostrophe"

definition purchase_50 :: payload where
  "purchase_50 = event ''u1'' ''e2'' ''purchase'' (Some (JNum (Fin 50))) None"

definition purchase_no_amount :: payload where
  "purchase_no_amount = event ''u1'' ''e3'' ''purchase'' None None"

definition purchase_abc :: payload where
  "purchase_abc = event ''u1'' ''e4'' ''purchase'' (Some (JStr ''abc'')) None"

text \<open>What step 4a computes from the payload and the events the session sees: the converted
  duration and the count of the user's earlier events that have one, or neither.\<close>

definition duration_and_count ::
  "pyenv \<Rightarrow> payload \<Rightarrow> event_row list \<Rightarrow> pyfloat option \<times> int option" where
  "duration_and_count E p evs =
     (case p_duration p of
        None \<Rightarrow> (None, None)
      | Some v \<Rightarrow>
          if truthy v then
            (case py_float E v of
               Inl e \<Rightarrow> (None, None)
             | Inr d \<Rightarrow>
                 (Some d, Some (int (length (filter
                    (\<lambda>r. e_user_id r = p_user_id p \<and> has_duration r) evs)))))
          else (None, None))"

text \<open>The statistics object step 5 works on, and the table it is written to.\<close>

definition loaded_stats :: "payload \<Rightarrow> stats_row list \<Rightarrow> stats_row" where
  "loaded_stats p rows =
     (case find (\<lambda>r. s_user_id r = p_user_id p) rows of
        None \<Rightarrow> new_stats (p_user_id p)
      | Some r \<Rightarrow> r)"

definition stats_rows :: "payload \<Rightarrow> stats_row list \<Rightarrow> stats_row list" where
  "stats_rows p rows =
     (case find (\<lambda>r. s_user_id r = p_user_id p) rows of
        None \<Rightarrow> rows @ [new_stats (p_user_id p)]
      | Some r \<Rightarrow> rows)"

text \<open>The event row step 4b inserts.\<close>

definition new_event :: "payload \<Rightarrow> int \<Rightarrow> event_row" where
  "new_event p timestamp =
     \<lparr>e_event_id = p_event_id p, e_user_id = p_user_id p, e_event_type = p_event_type p,
      e_timestamp = timestamp, e_duration = p_duration p,
      e_event_metadata = (case p_event_metadata p of None \<Rightarrow> JObj [] | Some m \<Rightarrow> m)\<rparr>"

text \<open>The right-hand side of the running-average formula.\<close>

definition running_average :: "pyfloat \<Rightarrow> int \<Rightarrow> pyfloat \<Rightarrow> pyfloat" where
  "running_average old_avg n new_duration =
     (if 0 < n then fdiv_count (fadd (fmul_count old_avg n) new_duration) (n + 1)
      else new_duration)"

text \<open>\<^verbatim>\<open>0 < x\<close> on a float: true for \<^verbatim>\<open>Infinity\<close>, false for \<^verbatim>\<open>NaN\<close>.\<close>

primrec strictly_positive :: "pyfloat \<Rightarrow> bool" where
  "strictly_positive (Fin r) = (0 < r)"
| "strictly_positive PInf = True"
| "strictly_positive NInf = False"
| "strictly_positive NaN = False"

text \<open>The exceptions the amount rule's own handler catches,
  \<^verbatim>\<open>except (TypeError, ValueError)\<close>.\<close>

primrec not_numeric_error :: "exc \<Rightarrow> bool" where
  "not_numeric_error (ValueError m) = True"
| "not_numeric_error (TypeError m) = True"
| "not_numeric_error (OverflowError m) = False"
| "not_numeric_error (InvalidOperation m) = False"
| "not_numeric_error (IntegrityError m) = False"
| "not_numeric_error (SQLAlchemyError c m) = False"

text \<open>A purchase whose amount is the JSON integer 7, and one whose amount is the JSON
  integer \<open>2 ^ 1024\<close>, beyond the range of a float.\<close>

definition purchase_7 :: payload where
  "purchase_7 = event ''u1'' ''e6'' ''purchase'' (Some (JInt 7)) None"

definition huge_purchase :: payload where
  "huge_purchase = event ''u1'' ''e5'' ''purchase'' (Some (JInt (2 ^ 1024))) None"





section \<open>Properties\<close>

subsection \<open>The statistics table\<close>

lemma find_write_stats:
  "s_user_id st = k \<Longrightarrow> find (\<lambda>x. s_user_id x = k) rs \<noteq> None
     \<Longrightarrow> find (\<lambda>x. s_user_id x = k) (write_stats st rs) = Some st"
  by (induction rs) auto

lemma list_all_write_stats:
  "list_all P rs \<Longrightarrow> P st \<Longrightarrow> list_all P (write_stats st rs)"
  by (induction rs) auto

lemma find_append_new:
  "find P xs = None \<Longrightarrow> P y \<Longrightarrow> find P (xs @ [y]) = Some y"
  by (induction xs) (auto split: if_splits)

lemma engagement_bounds: "0 \<le> te \<Longrightarrow> 0 \<le> tp \<Longrightarrow> 0 \<le> engagement te tp \<and> engagement te tp \<le> 100"
  by (simp add: engagement_def Let_def)

lemma engagement_mono: "te \<le> te' \<Longrightarrow> tp \<le> tp' \<Longrightarrow> engagement te tp \<le> engagement te' tp'"
  by (auto simp add: engagement_def Let_def)

lemma update_average_fields:
  "s_user_id (update_average d n st) = s_user_id st"
  "total_events (update_average d n st) = total_events st"
  "total_purchases (update_average d n st) = total_purchases st"
  by (simp_all add: update_average_def split: option.splits)

lemma update_stats_score:
  assumes "update_stats E p t d n st = Inr st'"
  shows "engagement_score st' = Fin (engagement (total_events st') (total_purchases st'))"
    and "s_user_id st' = s_user_id st"
    and "total_events st' = total_events st + 1"
    and "total_purchases st \<le> total_purchases st'"
  using assms
  by (auto simp add: update_stats_def Let_def update_average_fields split: if_splits sum.splits)

lemma step5_update_recomputed:
  assumes "step5_update E F s p t d n stats = (Inr r, s')"
    and "s_user_id stats = p_user_id p"
    and "find (\<lambda>x. s_user_id x = p_user_id p) (user_stats (working s)) \<noteq> None"
  shows "recomputed p s'"
proof -
  from assms(1) obtain st' where u: "update_stats E p t d n stats = Inr st'"
    and c: "step6_commit F
            (s\<lparr>working := (working s)\<lparr>user_stats := write_stats st' (user_stats (working s))\<rparr>\<rparr>)
            p = (Inr r, s')"
    by (auto simp add: step5_update_def split: sum.splits)
  from c have s': "s' = commit (s\<lparr>working := (working s)\<lparr>user_stats := write_stats st' (user_stats (working s))\<rparr>\<rparr>)"
    by (auto simp add: step6_commit_def split: option.splits)
  have k: "s_user_id st' = p_user_id p"
    using update_stats_score(2)[OF u] assms(2) by simp
  have "find (\<lambda>x. s_user_id x = p_user_id p) (write_stats st' (user_stats (working s))) = Some st'"
    using find_write_stats[OF k assms(3)] .
  then show ?thesis
    using update_stats_score(1)[OF u] by (simp add: recomputed_def s' commit_def)
qed

lemma step5_stats_recomputed:
  assumes "step5_stats E F s p t d n = (Inr r, s')"
  shows "recomputed p s'"
proof (cases "find (\<lambda>x. s_user_id x = p_user_id p) (user_stats (working s))")
  case None
  with assms have "step5_update E F
                      (s\<lparr>working := (working s)\<lparr>user_stats :=
                            user_stats (working s) @ [new_stats (p_user_id p)]\<rparr>\<rparr>)
                      p t d n (new_stats (p_user_id p)) = (Inr r, s')"
    by (auto simp add: step5_stats_def split: option.splits)
  moreover have "s_user_id (new_stats (p_user_id p)) = p_user_id p"
    by (simp add: new_stats_def)
  ultimately show ?thesis
    using None by (intro step5_update_recomputed) (auto simp add: find_append_new)
next
  case (Some st)
  then have "s_user_id st = p_user_id p" by (auto simp add: find_Some_iff)
  moreover from assms Some have "step5_update E F s p t d n st = (Inr r, s')"
    by (auto simp add: step5_stats_def split: option.splits)
  ultimately show ?thesis using Some by (intro step5_update_recomputed) auto
qed

lemma step4b_event_recomputed:
  "step4b_event E F s p t d n = (Inr r, s') \<Longrightarrow> recomputed p s'"
  by (auto simp add: step4b_event_def split: option.splits dest: step5_stats_recomputed)

lemma step4a_duration_recomputed:
  "step4a_duration E F s p = (Inr r, s') \<Longrightarrow> recomputed p s'"
  by (auto simp add: step4a_duration_def split: option.splits sum.splits if_splits
      dest: step4b_event_recomputed)

lemma step3_user_recomputed:
  "step3_user E F s p = (Inr r, s') \<Longrightarrow> recomputed p s'"
  by (auto simp add: step3_user_def split: option.splits sum.splits
      dest: step4a_duration_recomputed)


lemma store_event_Inr_Some:
  "store_event E F s p = (Inr (Some eid), s') \<Longrightarrow> store_event_try E F s p = (Inr (Some eid), s')"
  by (auto simp add: store_event_def split: prod.splits sum.splits exc.splits if_splits)

lemma store_event_accepted_recomputed:
  assumes "store_event E F s p = (Inr (Some eid), s')"
    and "find (\<lambda>r. e_event_id r = p_event_id p) (user_events (working s)) = None"
  shows "recomputed p s'"
proof -
  have "store_event_try E F s p = (Inr (Some eid), s')"
    using assms(1) by (rule store_event_Inr_Some)
  then have "step3_user E F s p = (Inr (Some eid), s')"
    using assms(2)
    by (auto simp add: store_event_try_def step2_duplicate_def split: prod.splits bool.splits option.splits if_splits)
  then show ?thesis by (rule step3_user_recomputed)
qed

lemma update_stats_score_ok:
  assumes "update_stats E p t d n st = Inr st'" and "score_ok st"
  shows "score_ok st'"
  using update_stats_score[OF assms(1)] assms(2) by (simp add: score_ok_def)

lemma score_ok_new_stats: "score_ok (new_stats uid)"
  by (simp add: score_ok_def new_stats_def engagement_def)

lemma step6_commit_stats_ok: "stats_ok s \<Longrightarrow> stats_ok (snd (step6_commit F s p))"
  by (auto simp add: step6_commit_def stats_ok_def commit_def split: option.splits)

lemma step5_update_stats_ok:
  "stats_ok s \<Longrightarrow> score_ok st \<Longrightarrow> stats_ok (snd (step5_update E F s p t d n st))"
  by (auto simp add: step5_update_def stats_ok_def list_all_write_stats update_stats_score_ok
      split: sum.splits intro!: step6_commit_stats_ok[unfolded stats_ok_def])

lemma step5_stats_stats_ok:
  assumes "stats_ok s"
  shows "stats_ok (snd (step5_stats E F s p t d n))"
proof (cases "find (\<lambda>r. s_user_id r = p_user_id p) (user_stats (working s))")
  case None
  have "stats_ok (s\<lparr>working := (working s)\<lparr>user_stats :=
                            user_stats (working s) @ [new_stats (p_user_id p)]\<rparr>\<rparr>)"
    using assms by (simp add: stats_ok_def score_ok_new_stats)
  then show ?thesis
    using None assms
    by (auto simp add: step5_stats_def score_ok_new_stats split: option.splits
        intro!: step5_update_stats_ok)
next
  case (Some st)
  then have "st \<in> set (user_stats (working s))" by (auto simp add: find_Some_iff)
  then have "score_ok st" using assms by (auto simp add: stats_ok_def list_all_iff)
  then show ?thesis
    using Some assms
    by (auto simp add: step5_stats_def split: option.splits intro!: step5_update_stats_ok)
qed

lemma step4b_event_stats_ok:
  "stats_ok s \<Longrightarrow> stats_ok (snd (step4b_event E F s p t d n))"
  by (auto simp add: step4b_event_def split: option.splits
      intro!: step5_stats_stats_ok) (simp_all add: stats_ok_def)

lemma step4a_duration_stats_ok:
  "stats_ok s \<Longrightarrow> stats_ok (snd (step4a_duration E F s p))"
  by (auto simp add: step4a_duration_def split: option.splits sum.splits
      intro!: step4b_event_stats_ok)

lemma step3_user_stats_ok:
  "stats_ok s \<Longrightarrow> stats_ok (snd (step3_user E F s p))"
  by (auto simp add: step3_user_def split: option.splits sum.splits
      intro!: step4a_duration_stats_ok) (simp_all add: stats_ok_def)

lemma store_event_try_stats_ok:
  "stats_ok s \<Longrightarrow> stats_ok (snd (store_event_try E F s p))"
  by (auto simp add: store_event_try_def step2_duplicate_def
      split: prod.splits bool.splits option.splits intro!: step3_user_stats_ok)

lemma rollback_stats_ok: "stats_ok s \<Longrightarrow> stats_ok (rollback s)"
  by (simp add: stats_ok_def rollback_def)

lemma store_event_stats_ok:
  assumes "stats_ok s"
  shows "stats_ok (snd (store_event E F s p))"
proof -
  have "stats_ok (snd (store_event_try E F s p))"
    using assms by (rule store_event_try_stats_ok)
  then show ?thesis
    by (auto simp add: store_event_def rollback_stats_ok split: prod.splits sum.splits exc.splits)
qed

lemma log_dead_letter_stats_ok:
  "stats_ok s \<Longrightarrow> stats_ok (snd (log_dead_letter f s p m t st))"
  by (auto simp add: log_dead_letter_def stats_ok_def rollback_def commit_def split: option.splits)

lemma SessionLocal_stats_ok:
  "list_all score_ok (user_stats d) \<Longrightarrow> stats_ok (SessionLocal d)"
  by (simp add: stats_ok_def SessionLocal_def)

lemma stats_ok_committed: "stats_ok s \<Longrightarrow> list_all score_ok (user_stats (committed s))"
  by (simp add: stats_ok_def)

lemma commit_offset_db: "db (snd (commit_offset b w)) = db w"
  by (simp add: commit_offset_def)

lemma bump_db: "db (bump f w) = db w"
  by (simp add: bump_def)

lemma process_message_stats_ok:
  assumes "list_all score_ok (user_stats (db w))"
  shows "list_all score_ok (user_stats (db (process_message E env msg w)))"
proof -
  let ?w = "w\<lparr>positions := (positions w)(m_partition msg \<mapsto> m_offset msg + 1)\<rparr>"
  obtain r s where se: "store_event E (store_faults env) (SessionLocal (db ?w)) (m_value msg) = (r, s)"
    by (cases "store_event E (store_faults env) (SessionLocal (db ?w)) (m_value msg)")
  have ok: "stats_ok s"
    using store_event_stats_ok[OF SessionLocal_stats_ok, of "db ?w" E "store_faults env" "m_value msg"]
      assms se by simp
  have c: "list_all score_ok (user_stats (committed s))"
    using ok by (rule stats_ok_committed)
  show ?thesis
  proof (cases r)
    case (Inr event_id)
    then show ?thesis
      using se c
      by (auto simp add: process_message_def Let_def commit_offset_db bump_db
          commit_offset_def bump_def split: prod.splits bool.splits if_splits)
  next
    case (Inl e)
    have d1: "list_all score_ok (user_stats (committed (snd (log_dead_letter (dlq_fault env) (SessionLocal (committed s)) (m_value msg) (message e) ''ValueError'' ''pending''))))"
      by (intro stats_ok_committed log_dead_letter_stats_ok SessionLocal_stats_ok c)
    have d2: "list_all score_ok (user_stats (committed (snd (log_dead_letter (dlq_fault env) s (m_value msg) (message e) (class_name e) ''pending''))))"
      by (intro stats_ok_committed log_dead_letter_stats_ok ok)
    show ?thesis
      using se Inl d1 d2
      by (auto simp add: process_message_def Let_def commit_offset_db bump_db split: prod.splits)
  qed
qed

lemma consume_loop_stats_ok:
  "list_all score_ok (user_stats (db w))
     \<Longrightarrow> list_all score_ok (user_stats (db (consume_loop polls E max_events w)))"
  by (induction polls arbitrary: w) (auto split: option.splits intro: process_message_stats_ok)


lemma engagement_min: "engagement te tp = min 100 (of_int te * (1 / 2) + of_int tp * 5)"
  by (simp add: engagement_def Let_def min_def)

text \<open>
  Claim C8. After every accepted event the engagement score of the user's statistics row is
  \<open>min 100 (total_events * 0.5 + total_purchases * 5)\<close> of the row's updated counters;
  every statistics row of a database the consumer loop can reach from the empty one has
  that score, which lies between 0 and 100; and the formula is monotone in both counters.
\<close>

theorem engagement_score_recomputed_and_clamped:
  "(store_event E F s p = (Inr (Some eid), s')
      \<and> find (\<lambda>r. e_event_id r = p_event_id p) (user_events (working s)) = None
    \<longrightarrow> (\<exists>st. find (\<lambda>x. s_user_id x = p_user_id p) (user_stats (committed s')) = Some st
           \<and> engagement_score st =
               Fin (min 100 (of_int (total_events st) * (1 / 2) + of_int (total_purchases st) * 5))))
   \<and> (st \<in> set (user_stats (db (consume_loop polls E max_events initial_world)))
    \<longrightarrow> (\<exists>x. engagement_score st = Fin x
           \<and> x = min 100 (of_int (total_events st) * (1 / 2) + of_int (total_purchases st) * 5)
           \<and> 0 \<le> x \<and> x \<le> 100))
   \<and> (te \<le> te' \<and> tp \<le> tp'
    \<longrightarrow> min (100::rat) (of_int te * (1 / 2) + of_int tp * 5)
          \<le> min 100 (of_int te' * (1 / 2) + of_int tp' * 5))"
proof (intro conjI impI)
  assume a: "store_event E F s p = (Inr (Some eid), s')
      \<and> find (\<lambda>r. e_event_id r = p_event_id p) (user_events (working s)) = None"
  then have "recomputed p s'"
    using store_event_accepted_recomputed by blast
  then show "\<exists>st. find (\<lambda>x. s_user_id x = p_user_id p) (user_stats (committed s')) = Some st
           \<and> engagement_score st =
               Fin (min 100 (of_int (total_events st) * (1 / 2) + of_int (total_purchases st) * 5))"
    by (auto simp add: recomputed_def engagement_min split: option.splits)
next
  assume m: "st \<in> set (user_stats (db (consume_loop polls E max_events initial_world)))"
  have "list_all score_ok (user_stats (db initial_world))"
    by (simp add: initial_world_def empty_database_def)
  then have "list_all score_ok (user_stats (db (consume_loop polls E max_events initial_world)))"
    by (rule consume_loop_stats_ok)
  with m have ok: "score_ok st" by (simp add: list_all_iff)
  then have b: "0 \<le> engagement (total_events st) (total_purchases st)
                \<and> engagement (total_events st) (total_purchases st) \<le> 100"
    by (intro engagement_bounds) (simp_all add: score_ok_def)
  show "\<exists>x. engagement_score st = Fin x
           \<and> x = min 100 (of_int (total_events st) * (1 / 2) + of_int (total_purchases st) * 5)
           \<and> 0 \<le> x \<and> x \<le> 100"
    using ok b by (simp add: score_ok_def engagement_min)
next
  assume "te \<le> te' \<and> tp \<le> tp'"
  then have "engagement te tp \<le> engagement te' tp'"
    by (simp add: engagement_mono)
  then show "min (100::rat) (of_int te * (1 / 2) + of_int tp * 5)
          \<le> min 100 (of_int te' * (1 / 2) + of_int tp' * 5)"
    by (simp add: engagement_min)
qed

theorem engagement_score_witness:
  "fst (store_event test_env no_faults (SessionLocal empty_database) click_e1) = Inr (Some ''e1'')
   \<and> find (\<lambda>r. e_event_id r = p_event_id click_e1)
        (user_events (working (SessionLocal empty_database))) = None
   \<and> (\<exists>st. find (\<lambda>x. s_user_id x = p_user_id click_e1)
              (user_stats (committed (snd (store_event test_env no_faults
                 (SessionLocal empty_database) click_e1)))) = Some st
           \<and> engagement_score st =
               Fin (min 100 (of_int (total_events st) * (1 / 2) + of_int (total_purchases st) * 5)))
   \<and> stats_after_click \<in> set (user_stats (db (consume_loop [(Some (msg_at 0 click_e1), ok_env)]
         test_env None initial_world)))
   \<and> (\<exists>x. engagement_score stats_after_click = Fin x \<and> 0 \<le> x \<and> x \<le> 100)
   \<and> min (100::rat) (of_int 1000 * (1 / 2) + of_int 0 * 5) = 100
   \<and> min (100::rat) (of_int 10 * (1 / 2) + of_int 2 * 5)
        \<le> min 100 (of_int 11 * (1 / 2) + of_int 2 * 5)"
proof -
  let ?s = "SessionLocal empty_database"
  have h1: "fst (store_event test_env no_faults ?s click_e1) = Inr (Some ''e1'')"
    by code_simp
  have h2: "find (\<lambda>r. e_event_id r = p_event_id click_e1) (user_events (working ?s)) = None"
    by code_simp
  have h3: "stats_after_click \<in> set (user_stats (db (consume_loop
              [(Some (msg_at 0 click_e1), ok_env)] test_env None initial_world)))"
    by code_simp
  have h4: "(10::int) \<le> 11 \<and> (2::int) \<le> 2" by simp
  have e: "store_event test_env no_faults ?s click_e1
             = (Inr (Some ''e1''), snd (store_event test_env no_faults ?s click_e1))"
    using h1 by (metis prod.collapse)
  note t = engagement_score_recomputed_and_clamped
             [of test_env no_faults ?s click_e1 "''e1''"
                 "snd (store_event test_env no_faults ?s click_e1)"
                 stats_after_click "[(Some (msg_at 0 click_e1), ok_env)]" None 10 11 2 2]
  have c1: "\<exists>st. find (\<lambda>x. s_user_id x = p_user_id click_e1)
              (user_stats (committed (snd (store_event test_env no_faults ?s click_e1)))) = Some st
           \<and> engagement_score st =
               Fin (min 100 (of_int (total_events st) * (1 / 2) + of_int (total_purchases st) * 5))"
    using t e h2 by blast
  have c2: "\<exists>x. engagement_score stats_after_click = Fin x \<and> 0 \<le> x \<and> x \<le> 100"
    using t h3 by blast
  have c3: "min (100::rat) (of_int 10 * (1 / 2) + of_int 2 * 5)
        \<le> min 100 (of_int 11 * (1 / 2) + of_int 2 * 5)"
    using t h4 by blast
  have c4: "min (100::rat) (of_int 1000 * (1 / 2) + of_int 0 * 5) = 100" by simp
  show ?thesis using h1 h2 h3 c1 c2 c3 c4 by blast
qed

subsection \<open>Failures and rollback\<close>

lemma step6_commit_Inl: "step6_commit F s p = (Inl e, s') \<Longrightarrow> committed s' = committed s"
  by (auto simp add: step6_commit_def split: option.splits)

lemma step5_update_Inl:
  "step5_update E F s p t d n st = (Inl e, s') \<Longrightarrow> committed s' = committed s"
  by (auto simp add: step5_update_def split: sum.splits dest: step6_commit_Inl)

lemma step5_stats_Inl:
  "step5_stats E F s p t d n = (Inl e, s') \<Longrightarrow> committed s' = committed s"
  by (auto simp add: step5_stats_def split: option.splits dest: step5_update_Inl)

lemma step4b_event_Inl:
  "step4b_event E F s p t d n = (Inl e, s') \<Longrightarrow> committed s' = committed s"
  by (auto simp add: step4b_event_def split: option.splits dest: step5_stats_Inl)

lemma step4a_duration_Inl:
  "step4a_duration E F s p = (Inl e, s') \<Longrightarrow> committed s' = committed s"
  by (auto simp add: step4a_duration_def split: option.splits sum.splits if_splits
      dest: step4b_event_Inl)

lemma step3_user_Inl:
  "step3_user E F s p = (Inl e, s') \<Longrightarrow> committed s' = committed s"
  by (auto simp add: step3_user_def split: option.splits sum.splits dest: step4a_duration_Inl)

lemma store_event_try_Inl:
  "store_event_try E F s p = (Inl e, s') \<Longrightarrow> committed s' = committed s"
  by (auto simp add: store_event_try_def step2_duplicate_def
      split: prod.splits bool.splits option.splits dest: step3_user_Inl)

lemma store_event_handler:
  "store_event_try E F s p = (Inl e, s1) \<Longrightarrow>
     store_event E F s p = (if duplicate_key e then Inr None else Inl e, rollback s1)"
  by (auto simp add: store_event_def duplicate_key_def split: exc.splits)

lemma store_event_returns:
  "store_event_try E F s p = (Inr r, s1) \<Longrightarrow> store_event E F s p = (Inr r, s1)"
  by (simp add: store_event_def)

lemma store_event_Inl:
  assumes "store_event E F s p = (Inl e, s')"
  shows "\<exists>s1. store_event_try E F s p = (Inl e, s1) \<and> s' = rollback s1 \<and> \<not> duplicate_key e"
proof (cases "store_event_try E F s p")
  case (Pair r s1)
  show ?thesis
  proof (cases r)
    case (Inl e1)
    with Pair assms show ?thesis
      using store_event_handler[of E F s p e1 s1] by (auto split: if_splits)
  next
    case (Inr x)
    with Pair assms show ?thesis
      using store_event_returns[of E F s p x s1] by simp
  qed
qed

lemma validate_event_invalid:
  "\<not> fst (validate_event E p) \<Longrightarrow>
     store_event_try E F s p =
       (Inl (ValueError (case snd (validate_event E p) of None \<Rightarrow> ''None'' | Some m \<Rightarrow> m)), s)"
  by (cases "validate_event E p") (auto simp add: store_event_try_def)




subsection \<open>Duplicates\<close>

lemma find_append_hit: "P y \<Longrightarrow> \<exists>z. find P (xs @ [y]) = Some z"
  by (induction xs) auto

lemma step6_commit_Inr:
  "step6_commit F s p = (Inr r, s') \<Longrightarrow> r = p_event_id p \<and> working s' = working s"
  by (auto simp add: step6_commit_def commit_def split: option.splits)

lemma step5_update_Inr:
  "step5_update E F s p t d n st = (Inr r, s') \<Longrightarrow>
     r = p_event_id p \<and> user_events (working s') = user_events (working s)"
  by (auto simp add: step5_update_def split: sum.splits dest!: step6_commit_Inr)

lemma step5_stats_Inr:
  "step5_stats E F s p t d n = (Inr r, s') \<Longrightarrow>
     r = p_event_id p \<and> user_events (working s') = user_events (working s)"
  by (auto simp add: step5_stats_def split: option.splits dest!: step5_update_Inr)

lemma step4b_event_Inr:
  "step4b_event E F s p t d n = (Inr r, s') \<Longrightarrow> r = p_event_id p \<and> has_event p s'"
  by (auto simp add: step4b_event_def has_event_def find_append_hit
      split: option.splits dest!: step5_stats_Inr)

lemma step4a_duration_Inr:
  "step4a_duration E F s p = (Inr r, s') \<Longrightarrow> r = p_event_id p \<and> has_event p s'"
  by (auto simp add: step4a_duration_def split: option.splits sum.splits if_splits
      dest!: step4b_event_Inr)

lemma step3_user_Inr:
  "step3_user E F s p = (Inr r, s') \<Longrightarrow> r = p_event_id p \<and> has_event p s'"
  by (auto simp add: step3_user_def split: option.splits sum.splits dest!: step4a_duration_Inr)

lemma store_event_try_Inr:
  "store_event_try E F s p = (Inr r, s') \<Longrightarrow>
     r = p_event_id p \<and> has_event p s' \<and> fst (validate_event E p)"
  by (auto simp add: store_event_try_def step2_duplicate_def has_event_def
      split: prod.splits bool.splits option.splits dest!: step3_user_Inr)

lemma mem_optional_key: "x \<in> set (if c then [] else [k]) \<longleftrightarrow> \<not> c \<and> x = k"
  by simp

lemma required_keys:
  "''user_id'' \<in> set (payload_keys p) \<longleftrightarrow> p_user_id p \<noteq> None"
  "''event_id'' \<in> set (payload_keys p) \<longleftrightarrow> p_event_id p \<noteq> None"
  "''event_type'' \<in> set (payload_keys p) \<longleftrightarrow> p_event_type p \<noteq> None"
  "''timestamp'' \<in> set (payload_keys p) \<longleftrightarrow> p_timestamp p \<noteq> None"
  by (simp_all add: payload_keys_def mem_optional_key split del: if_split)

lemma missing_fields:
  "filter (\<lambda>k. k \<notin> set (payload_keys p)) REQUIRED_FIELDS = [] \<longleftrightarrow>
     p_user_id p \<noteq> None \<and> p_event_id p \<noteq> None \<and> p_event_type p \<noteq> None \<and> p_timestamp p \<noteq> None"
  unfolding REQUIRED_FIELDS_def filter.simps required_keys by auto

lemma validate_event_has_id:
  "fst (validate_event E p) \<Longrightarrow> p_event_id p \<noteq> None"
  unfolding validate_event_def Let_def missing_fields by (auto split: if_splits)

lemma store_event_try_duplicate:
  assumes "fst (validate_event E p)" and "F QueryEvent = None" and "has_event p s"
  shows "store_event_try E F s p = (Inr (p_event_id p), s)"
  using assms
  by (cases "validate_event E p")
     (auto simp add: store_event_try_def step2_duplicate_def has_event_def split: option.splits)

text \<open>
  Claim C3. When the payload is valid and an event with its identifier is already stored,
  \<^verbatim>\<open>store_event\<close> returns that identifier and leaves the session, and with it the
  user's statistics row, exactly as it was. In particular a second call with a payload
  that was just stored returns the same identifier and changes nothing.
\<close>

theorem duplicate_event_is_noop:
  "(fst (validate_event E p) \<and> F QueryEvent = None
      \<and> find (\<lambda>r. e_event_id r = p_event_id p) (user_events (working s)) = Some ev
    \<longrightarrow> (\<exists>eid. p_event_id p = Some eid \<and> store_event E F s p = (Inr (Some eid), s)))
   \<and> (store_event E F s p = (Inr (Some eid), s1) \<and> F' QueryEvent = None
    \<longrightarrow> store_event E F' s1 p = (Inr (Some eid), s1)
        \<and> user_stats (committed (snd (store_event E F' s1 p))) = user_stats (committed s1))"
proof -
  have one: "\<exists>eid. p_event_id p = Some eid \<and> store_event E F s p = (Inr (Some eid), s)"
    if a: "fst (validate_event E p) \<and> F QueryEvent = None
      \<and> find (\<lambda>r. e_event_id r = p_event_id p) (user_events (working s)) = Some ev"
  proof -
    have "has_event p s" using a by (simp add: has_event_def)
    then have "store_event_try E F s p = (Inr (p_event_id p), s)"
      using a by (intro store_event_try_duplicate) simp_all
    then have "store_event E F s p = (Inr (p_event_id p), s)"
      by (rule store_event_returns)
    moreover have "p_event_id p \<noteq> None" using a validate_event_has_id by blast
    ultimately show ?thesis by auto
  qed
  have two: "store_event E F' s1 p = (Inr (Some eid), s1)
        \<and> user_stats (committed (snd (store_event E F' s1 p))) = user_stats (committed s1)"
    if b: "store_event E F s p = (Inr (Some eid), s1) \<and> F' QueryEvent = None"
  proof -
    have "store_event_try E F s p = (Inr (Some eid), s1)"
      using b store_event_Inr_Some by blast
    then have f: "Some eid = p_event_id p \<and> has_event p s1 \<and> fst (validate_event E p)"
      by (rule store_event_try_Inr)
    then have "store_event_try E F' s1 p = (Inr (p_event_id p), s1)"
      using b by (intro store_event_try_duplicate) simp_all
    then have "store_event E F' s1 p = (Inr (p_event_id p), s1)"
      by (rule store_event_returns)
    then show ?thesis using f by simp
  qed
  show ?thesis using one two by blast
qed

theorem duplicate_event_witness:
  "fst (store_event test_env no_faults (SessionLocal empty_database) click_e1) = Inr (Some ''e1'')
   \<and> no_faults QueryEvent = None
   \<and> store_event test_env no_faults
        (snd (store_event test_env no_faults (SessionLocal empty_database) click_e1)) click_e1
      = (Inr (Some ''e1''), snd (store_event test_env no_faults (SessionLocal empty_database) click_e1))"
proof -
  let ?s = "SessionLocal empty_database"
  let ?s1 = "snd (store_event test_env no_faults ?s click_e1)"
  have h1: "fst (store_event test_env no_faults ?s click_e1) = Inr (Some ''e1'')"
    by code_simp
  have h2: "no_faults QueryEvent = None" by (simp add: no_faults_def)
  have e1: "store_event test_env no_faults ?s click_e1 = (Inr (Some ''e1''), ?s1)"
    using h1 by (rule_tac prod_eqI) simp_all
  note t = duplicate_event_is_noop
      [where E = test_env and p = click_e1 and F = no_faults and s = ?s and eid = "''e1''"
         and ?s1.0 = ?s1 and F' = no_faults]
  have c1: "store_event test_env no_faults ?s1 click_e1 = (Inr (Some ''e1''), ?s1)"
    using t e1 h2 by blast
  show ?thesis using h1 h2 c1 by blast
qed

subsection \<open>The consumer loop\<close>

lemma commit_offset_advances:
  "broker_ok env \<Longrightarrow> positions w part = Some pos \<Longrightarrow>
     committed_offsets (snd (commit_offset (broker_ok env) w)) part = Some pos"
  by (simp add: commit_offset_def)

lemma commit_offset_counters: "counters (snd (commit_offset b w)) = counters w"
  by (simp add: commit_offset_def)

lemma commit_offset_positions: "positions (snd (commit_offset b w)) = positions w"
  by (simp add: commit_offset_def)

lemma commit_offset_fst: "fst (commit_offset b w) = b"
  by (simp add: commit_offset_def)

lemma bump_fields:
  "positions (bump f w) = positions w"
  "committed_offsets (bump f w) = committed_offsets w"
  "counters (bump f w) = f (counters w)"
  by (simp_all add: bump_def)

text \<open>The loop body, outcome by outcome.\<close>

lemma process_message_stored:
  assumes "store_event E (store_faults env) (SessionLocal (db w)) (m_value msg) = (Inr r, s)"
    and "truthy_id r"
  shows "process_message E env msg w =
           (let w1 = snd (commit_offset (broker_ok env)
                      (w\<lparr>positions := (positions w)(m_partition msg \<mapsto> m_offset msg + 1),
                         db := committed s\<rparr>))
            in if broker_ok env
               then bump (\<lambda>c. c\<lparr>processed := processed c + 1\<rparr>) w1
               else bump (\<lambda>c. c\<lparr>failed := failed c + 1\<rparr>) w1)"
  using assms by (simp add: process_message_def Let_def commit_offset_def split: prod.splits)

lemma process_message_none:
  assumes "store_event E (store_faults env) (SessionLocal (db w)) (m_value msg) = (Inr r, s)"
    and "\<not> truthy_id r"
  shows "process_message E env msg w =
           snd (commit_offset (broker_ok env)
                  (bump (\<lambda>c. c\<lparr>duplicates := duplicates c + 1\<rparr>)
                     (w\<lparr>positions := (positions w)(m_partition msg \<mapsto> m_offset msg + 1),
                        db := committed s\<rparr>)))"
  using assms by (simp add: process_message_def Let_def split: prod.splits)

lemma process_message_raised:
  assumes "store_event E (store_faults env) (SessionLocal (db w)) (m_value msg) = (Inl e, s)"
  shows "process_message E env msg w =
           snd (commit_offset (broker_ok env)
                  (bump (\<lambda>c. c\<lparr>dlq_logged := dlq_logged c + 1, failed := failed c + 1\<rparr>)
                     (w\<lparr>positions := (positions w)(m_partition msg \<mapsto> m_offset msg + 1),
                        db := committed (snd (log_dead_letter (dlq_fault env)
                                (if is_ValueError e then SessionLocal (committed s) else s)
                                (m_value msg) (message e)
                                (if is_ValueError e then ''ValueError'' else class_name e)
                                ''pending''))\<rparr>)))"
  using assms by (simp add: process_message_def Let_def split: prod.splits)

lemma process_message_commits:
  assumes "broker_ok env"
  shows "committed_offsets (process_message E env msg w) (m_partition msg) = Some (m_offset msg + 1)"
proof (cases "store_event E (store_faults env) (SessionLocal (db w)) (m_value msg)")
  case (Pair r s)
  show ?thesis
  proof (cases r)
    case (Inl e)
    show ?thesis
      using assms process_message_raised[OF Pair[unfolded Inl]]
      by (simp add: commit_offset_def bump_def)
  next
    case (Inr i)
    show ?thesis
    proof (cases "truthy_id i")
      case True
      then show ?thesis
        using assms process_message_stored[OF Pair[unfolded Inr]]
        by (simp add: commit_offset_def bump_def Let_def)
    next
      case False
      then show ?thesis
        using assms process_message_none[OF Pair[unfolded Inr]]
        by (simp add: commit_offset_def bump_def)
    qed
  qed
qed

lemma log_dead_letter_ok:
  "committed (snd (log_dead_letter None s p m t st)) =
     (working s)\<lparr>dead_letter_queue := dead_letter_queue (working s) @
        [\<lparr>d_event_id = p_event_id p, d_event_data = p, d_error_message = m,
          d_error_type = t, d_status = st, d_retry_count = 0\<rparr>]\<rparr>"
  by (simp add: log_dead_letter_def commit_def)

lemma log_dead_letter_failed:
  "committed (snd (log_dead_letter (Some err) s p m t st)) = committed s"
  by (simp add: log_dead_letter_def rollback_def)

lemma storage_error_not_ValueError: "storage_error e \<Longrightarrow> \<not> is_ValueError e"
  by (cases e) (simp_all add: storage_error_def)

text \<open>
  Claim C1, as the code has it. A storage-layer error raised out of \<^verbatim>\<open>store_event\<close> is
  handled by the loop's general handler: a dead-letter entry with the error's class name
  and status \<open>pending\<close> is written (when that write succeeds), the failed and dead-letter
  counters go up by one, and the offset is committed. The offset commit is attempted after
  every outcome: whenever the broker accepts it, the committed offset of the message's
  partition is the message's offset plus one.
\<close>

theorem storage_error_is_dead_lettered_and_committed:
  "(fst (store_event E (store_faults env) (SessionLocal (db w)) (m_value msg)) = Inl e
      \<and> storage_error e
    \<longrightarrow> counters (process_message E env msg w)
          = (counters w)\<lparr>dlq_logged := dlq_logged (counters w) + 1,
                          failed := failed (counters w) + 1\<rparr>
        \<and> (dlq_fault env = None
            \<longrightarrow> db (process_message E env msg w)
                = (db w)\<lparr>dead_letter_queue := dead_letter_queue (db w) @
                     [dlq_entry msg (message e) (class_name e)]\<rparr>))
   \<and> (broker_ok env
    \<longrightarrow> committed_offsets (process_message E env msg w) (m_partition msg)
          = Some (m_offset msg + 1))"
proof -
  have one: "counters (process_message E env msg w)
          = (counters w)\<lparr>dlq_logged := dlq_logged (counters w) + 1,
                          failed := failed (counters w) + 1\<rparr>
        \<and> (dlq_fault env = None
            \<longrightarrow> db (process_message E env msg w)
                = (db w)\<lparr>dead_letter_queue := dead_letter_queue (db w) @
                     [dlq_entry msg (message e) (class_name e)]\<rparr>)"
    if a: "fst (store_event E (store_faults env) (SessionLocal (db w)) (m_value msg)) = Inl e
      \<and> storage_error e"
  proof -
    obtain s where se: "store_event E (store_faults env) (SessionLocal (db w)) (m_value msg)
                          = (Inl e, s)"
      using a by (metis prod.collapse)
    have nv: "\<not> is_ValueError e" using a storage_error_not_ValueError by blast
    from se obtain s2 where "store_event_try E (store_faults env) (SessionLocal (db w))
                               (m_value msg) = (Inl e, s2)" and r: "s = rollback s2"
      using store_event_Inl by blast
    then have "committed s2 = committed (SessionLocal (db w))"
      using store_event_try_Inl by blast
    then have ws: "working s = db w"
      by (simp add: r rollback_def SessionLocal_def)
    note pm = process_message_raised[OF se]
    have c: "counters (process_message E env msg w)
          = (counters w)\<lparr>dlq_logged := dlq_logged (counters w) + 1,
                          failed := failed (counters w) + 1\<rparr>"
      by (simp add: pm commit_offset_counters bump_fields)
    have d: "db (process_message E env msg w)
                = (db w)\<lparr>dead_letter_queue := dead_letter_queue (db w) @
                     [dlq_entry msg (message e) (class_name e)]\<rparr>"
      if "dlq_fault env = None"
      using that nv ws
      by (simp add: pm commit_offset_db bump_db log_dead_letter_ok dlq_entry_def)
    show ?thesis using c d by blast
  qed
  have two: "committed_offsets (process_message E env msg w) (m_partition msg)
          = Some (m_offset msg + 1)" if "broker_ok env"
    using that by (rule process_message_commits)
  show ?thesis using one two by blast
qed

theorem storage_error_witness:
  "fst (store_event test_env (store_faults failing_env) (SessionLocal (db initial_world))
          (m_value (msg_at 5 click_e1)))
      = Inl (SQLAlchemyError ''OperationalError'' ''connection lost'')
   \<and> storage_error (SQLAlchemyError ''OperationalError'' ''connection lost'')
   \<and> dlq_fault failing_env = None \<and> broker_ok failing_env
   \<and> failed (counters (process_message test_env failing_env (msg_at 5 click_e1) initial_world)) = 1
   \<and> map d_error_type (dead_letter_queue
        (db (process_message test_env failing_env (msg_at 5 click_e1) initial_world)))
      = [''OperationalError'']
   \<and> committed_offsets (process_message test_env failing_env (msg_at 5 click_e1) initial_world) 0
      = Some 6"
proof -
  let ?e = "SQLAlchemyError ''OperationalError'' ''connection lost''"
  have h1: "fst (store_event test_env (store_faults failing_env) (SessionLocal (db initial_world))
                   (m_value (msg_at 5 click_e1))) = Inl ?e"
    by code_simp
  have h2: "storage_error ?e" by (simp add: storage_error_def)
  have h3: "dlq_fault failing_env = None" by (simp add: failing_env_def)
  have h4: "broker_ok failing_env" by (simp add: failing_env_def)
  note t = storage_error_is_dead_lettered_and_committed
      [where E = test_env and env = failing_env and w = initial_world
         and msg = "msg_at 5 click_e1" and e = ?e]
  have c1: "counters (process_message test_env failing_env (msg_at 5 click_e1) initial_world)
          = (counters initial_world)\<lparr>dlq_logged := dlq_logged (counters initial_world) + 1,
                          failed := failed (counters initial_world) + 1\<rparr>"
    using t h1 h2 by blast
  have c2: "db (process_message test_env failing_env (msg_at 5 click_e1) initial_world)
                = (db initial_world)\<lparr>dead_letter_queue := dead_letter_queue (db initial_world) @
                     [dlq_entry (msg_at 5 click_e1) (message ?e) (class_name ?e)]\<rparr>"
    using t h1 h2 h3 by blast
  have c3: "committed_offsets (process_message test_env failing_env (msg_at 5 click_e1)
              initial_world) (m_partition (msg_at 5 click_e1))
          = Some (m_offset (msg_at 5 click_e1) + 1)"
    using t h4 by blast
  have r1: "failed (counters (process_message test_env failing_env (msg_at 5 click_e1)
              initial_world)) = 1"
  proof -
    have "failed (counters initial_world) = 0" by (simp add: initial_world_def)
    then show ?thesis using c1 by simp
  qed
  have r2: "map d_error_type (dead_letter_queue
        (db (process_message test_env failing_env (msg_at 5 click_e1) initial_world)))
      = [''OperationalError'']"
  proof -
    have "dead_letter_queue (db initial_world) = []"
      by (simp add: initial_world_def empty_database_def)
    then show ?thesis using c2 by (simp add: dlq_entry_def)
  qed
  have r3: "committed_offsets (process_message test_env failing_env (msg_at 5 click_e1)
              initial_world) 0 = Some 6"
    using c3 by (simp add: msg_at_def)
  show ?thesis using h1 h2 h3 h4 r1 r2 r3 by blast
qed

text \<open>The claim as stated fails: the commit raises a connection error, the exception leaves
  \<^verbatim>\<open>store_event\<close>, and the loop still commits offset 5 of partition 0.\<close>

theorem storage_error_offset_counterexample:
  "fst (store_event test_env commit_fails (SessionLocal empty_database) click_e1)
      = Inl (SQLAlchemyError ''OperationalError'' ''connection lost'')
   \<and> committed_offsets initial_world 0 = None
   \<and> committed_offsets (process_message test_env failing_env (msg_at 5 click_e1) initial_world) 0
      = Some 6"
  by code_simp

subsection \<open>Duplicates found by the unique constraint\<close>

lemma store_event_Inr_None:
  assumes "store_event E F s p = (Inr None, s')"
  shows "\<exists>e s1. store_event_try E F s p = (Inl e, s1) \<and> duplicate_key e \<and> s' = rollback s1"
proof (cases "store_event_try E F s p")
  case (Pair r s1)
  show ?thesis
  proof (cases r)
    case (Inl e)
    with Pair assms show ?thesis
      using store_event_handler[of E F s p e s1] by (auto split: if_splits)
  next
    case (Inr x)
    have "x = p_event_id p \<and> fst (validate_event E p)"
      using store_event_try_Inr[of E F s p x s1] Pair Inr by simp
    then have "x \<noteq> None" using validate_event_has_id by blast
    moreover have "store_event E F s p = (Inr x, s1)"
      using store_event_returns[of E F s p x s1] Pair Inr by simp
    ultimately show ?thesis using assms by simp
  qed
qed

text \<open>
  Claim C4, as the code has it. When an integrity error whose text names a unique constraint
  or a duplicate key is raised in the body (at the commit or at any flush),
  \<^verbatim>\<open>store_event\<close> rolls back, leaving the database as before the call, and returns
  \<^verbatim>\<open>None\<close>, not the event's identifier and not an exception. The loop counts a message
  for which \<^verbatim>\<open>store_event\<close> returned \<^verbatim>\<open>None\<close> as a duplicate, leaves the database
  alone and commits the offset.
\<close>

theorem constraint_duplicate_returns_none:
  "(store_event_try E F s p = (Inl (IntegrityError m), s1)
      \<and> (contains ''unique constraint'' (lower m) \<or> contains ''duplicate key'' (lower m))
    \<longrightarrow> store_event E F s p = (Inr None, rollback s1)
        \<and> committed (rollback s1) = committed s \<and> working (rollback s1) = committed s)
   \<and> (fst (store_event E (store_faults env) (SessionLocal (db w)) (m_value msg)) = Inr None
    \<longrightarrow> counters (process_message E env msg w)
          = (counters w)\<lparr>duplicates := duplicates (counters w) + 1\<rparr>
        \<and> db (process_message E env msg w) = db w
        \<and> (broker_ok env
            \<longrightarrow> committed_offsets (process_message E env msg w) (m_partition msg)
                = Some (m_offset msg + 1)))"
proof -
  have one: "store_event E F s p = (Inr None, rollback s1)
        \<and> committed (rollback s1) = committed s \<and> working (rollback s1) = committed s"
    if a: "store_event_try E F s p = (Inl (IntegrityError m), s1)
      \<and> (contains ''unique constraint'' (lower m) \<or> contains ''duplicate key'' (lower m))"
  proof -
    have dk: "duplicate_key (IntegrityError m)" using a by (simp add: duplicate_key_def)
    have "store_event E F s p = (Inr None, rollback s1)"
      using a dk store_event_handler[of E F s p "IntegrityError m" s1] by simp
    moreover have "committed s1 = committed s" using a store_event_try_Inl by blast
    ultimately show ?thesis by (simp add: rollback_def)
  qed
  have two: "counters (process_message E env msg w)
          = (counters w)\<lparr>duplicates := duplicates (counters w) + 1\<rparr>
        \<and> db (process_message E env msg w) = db w
        \<and> (broker_ok env
            \<longrightarrow> committed_offsets (process_message E env msg w) (m_partition msg)
                = Some (m_offset msg + 1))"
    if b: "fst (store_event E (store_faults env) (SessionLocal (db w)) (m_value msg)) = Inr None"
  proof -
    obtain s2 where se: "store_event E (store_faults env) (SessionLocal (db w)) (m_value msg)
                          = (Inr None, s2)"
      using b by (metis prod.collapse)
    from store_event_Inr_None[OF se] obtain e s3 where
      t: "store_event_try E (store_faults env) (SessionLocal (db w)) (m_value msg) = (Inl e, s3)"
      and r: "s2 = rollback s3" by blast
    have "committed s3 = committed (SessionLocal (db w))" using t by (rule store_event_try_Inl)
    then have cs: "committed s2 = db w" by (simp add: r rollback_def SessionLocal_def)
    have nt: "\<not> truthy_id None" by (simp add: truthy_id_def)
    note pm = process_message_none[OF se nt]
    have c: "counters (process_message E env msg w)
          = (counters w)\<lparr>duplicates := duplicates (counters w) + 1\<rparr>"
      by (simp add: pm commit_offset_counters bump_fields)
    have d: "db (process_message E env msg w) = db w"
      by (simp add: pm commit_offset_db bump_db cs)
    show ?thesis using c d process_message_commits by blast
  qed
  show ?thesis using one two by blast
qed

theorem constraint_duplicate_witness:
  "fst (store_event_try test_env commit_duplicate (SessionLocal empty_database) click_e1)
      = Inl (IntegrityError
          ''duplicate key value violates unique constraint user_events_event_id_key'')
   \<and> contains ''duplicate key''
        (lower ''duplicate key value violates unique constraint user_events_event_id_key'')
   \<and> fst (store_event test_env commit_duplicate (SessionLocal empty_database) click_e1) = Inr None
   \<and> committed (snd (store_event test_env commit_duplicate (SessionLocal empty_database) click_e1))
      = empty_database
   \<and> duplicates (counters (process_message test_env racing_env (msg_at 5 click_e1) initial_world))
      = 1
   \<and> db (process_message test_env racing_env (msg_at 5 click_e1) initial_world) = empty_database
   \<and> committed_offsets (process_message test_env racing_env (msg_at 5 click_e1) initial_world) 0
      = Some 6"
proof -
  let ?s = "SessionLocal empty_database"
  let ?m = "''duplicate key value violates unique constraint user_events_event_id_key''"
  let ?s1 = "snd (store_event_try test_env commit_duplicate ?s click_e1)"
  have h1: "fst (store_event_try test_env commit_duplicate ?s click_e1) = Inl (IntegrityError ?m)"
    by code_simp
  have h2: "contains ''duplicate key'' (lower ?m)" by code_simp
  have e1: "store_event_try test_env commit_duplicate ?s click_e1 = (Inl (IntegrityError ?m), ?s1)"
    using h1 by (rule_tac prod_eqI) simp_all
  note t1 = constraint_duplicate_returns_none
      [where E = test_env and F = commit_duplicate and s = ?s and p = click_e1 and m = ?m
         and ?s1.0 = ?s1]
  have c1: "store_event test_env commit_duplicate ?s click_e1 = (Inr None, rollback ?s1)
        \<and> committed (rollback ?s1) = committed ?s"
    using t1 e1 h2 by blast
  have r1: "fst (store_event test_env commit_duplicate ?s click_e1) = Inr None"
    using c1 by simp
  have r2: "committed (snd (store_event test_env commit_duplicate ?s click_e1)) = empty_database"
    using c1 by (simp add: SessionLocal_def)
  have h3: "fst (store_event test_env (store_faults racing_env) (SessionLocal (db initial_world))
                   (m_value (msg_at 5 click_e1))) = Inr None"
    by code_simp
  have h4: "broker_ok racing_env" by (simp add: racing_env_def)
  note t2 = constraint_duplicate_returns_none
      [where E = test_env and env = racing_env and w = initial_world and msg = "msg_at 5 click_e1"]
  have c2: "counters (process_message test_env racing_env (msg_at 5 click_e1) initial_world)
          = (counters initial_world)\<lparr>duplicates := duplicates (counters initial_world) + 1\<rparr>
        \<and> db (process_message test_env racing_env (msg_at 5 click_e1) initial_world)
            = db initial_world
        \<and> committed_offsets (process_message test_env racing_env (msg_at 5 click_e1) initial_world)
            (m_partition (msg_at 5 click_e1)) = Some (m_offset (msg_at 5 click_e1) + 1)"
    using t2 h3 h4 by blast
  have r3: "duplicates (counters (process_message test_env racing_env (msg_at 5 click_e1)
              initial_world)) = 1"
  proof -
    have "duplicates (counters initial_world) = 0" by (simp add: initial_world_def)
    then show ?thesis using c2 by simp
  qed
  have r4: "db (process_message test_env racing_env (msg_at 5 click_e1) initial_world)
              = empty_database"
  proof -
    have "db initial_world = empty_database" by (simp add: initial_world_def)
    then show ?thesis using c2 by simp
  qed
  have r5: "committed_offsets (process_message test_env racing_env (msg_at 5 click_e1)
              initial_world) 0 = Some 6"
    using c2 by (simp add: msg_at_def)
  show ?thesis using h1 h2 r1 r2 r3 r4 r5 by blast
qed

text \<open>The claim as stated fails: for the same payload, a duplicate found by the lookup
  returns the identifier, a duplicate found by the unique constraint at the commit returns
  \<^verbatim>\<open>None\<close>.\<close>

theorem constraint_duplicate_counterexample:
  "fst (store_event test_env no_faults
          (snd (store_event test_env no_faults (SessionLocal empty_database) click_e1)) click_e1)
      = Inr (Some ''e1'')
   \<and> fst (store_event test_env commit_duplicate (SessionLocal empty_database) click_e1) = Inr None
   \<and> fst (store_event test_env commit_duplicate (SessionLocal empty_database) click_e1)
      \<noteq> Inr (p_event_id click_e1)"
  by code_simp

subsection \<open>Where the code departs from the specification\<close>

text \<open>
  Claim C9 fails on the code. The same valid click is delivered twice. The second call of
  \<^verbatim>\<open>store_event\<close> finds the stored event and returns its identifier, which the loop's
  \<^verbatim>\<open>if event_id:\<close> takes for a newly stored event: one event is stored, the processed
  counter is 2 and the duplicate counter stays 0.
\<close>

theorem lookup_duplicate_counted_as_processed:
  "length (user_events (db click_twice)) = 1
   \<and> fst (store_event test_env no_faults
            (SessionLocal (db (process_message test_env ok_env (msg_at 0 click_e1) initial_world)))
            click_e1) = Inr (Some ''e1'')
   \<and> counters click_twice = \<lparr>processed = 2, failed = 0, duplicates = 0, dlq_logged = 0\<rparr>
   \<and> committed_offsets click_twice 0 = Some 2"
  by code_simp

text \<open>
  Claim C2 fails on the code. After a video event with duration 10 and one with duration 0
  for the same user, both events are stored with their duration, their mean is 5, and the
  user's \<^verbatim>\<open>avg_session_duration\<close> is 10: the truth test \<^verbatim>\<open>if duration_value:\<close> skipped
  the zero.
\<close>

theorem average_skips_zero_duration:
  "stored_durations (db after_both_videos) (Some ''u1'') = [Fin 10, Fin 0]
   \<and> spec_mean_duration (db after_both_videos) (Some ''u1'') = Fin 5
   \<and> map avg_session_duration (user_stats (db after_both_videos)) = [Fin 10]
   \<and> map total_events (user_stats (db after_both_videos)) = [2]"
  by code_simp

text \<open>
  Claim C6 fails on the code, by the same truth test. The second video event is accepted and
  carries the duration 0; one earlier event of the user has a duration and the old average
  is 10, so the claimed new average is \<open>(10 * 1 + 0) / 2 = 5\<close>. The code leaves the average
  at 10.
\<close>

theorem zero_duration_not_averaged:
  "fst (store_event test_env no_faults (SessionLocal (db after_video_10)) video_0)
      = Inr (Some ''e2'')
   \<and> p_duration video_0 = Some (JNum (Fin 0))
   \<and> int (length (filter (\<lambda>r. e_user_id r = p_user_id video_0 \<and> has_duration r)
                     (user_events (db after_video_10)))) = 1
   \<and> map avg_session_duration (user_stats (db after_video_10)) = [Fin 10]
   \<and> fdiv_count (fadd (fmul_count (Fin 10) 1) (Fin 0)) (1 + 1) = Fin 5
   \<and> map avg_session_duration
        (user_stats (committed (snd (store_event test_env no_faults
           (SessionLocal (db after_video_10)) video_0)))) = [Fin 10]"
  by code_simp

subsection \<open>Validation of purchases\<close>

lemma starts_with_append: "starts_with sub (sub @ rest)"
  by (induction sub) auto

lemma contains_Nil: "contains [] s"
  by (cases s) auto

lemma contains_prefix: "contains sub (sub @ rest)"
proof (cases "sub @ rest")
  case Nil
  then show ?thesis by simp
next
  case (Cons c cs)
  have "starts_with sub (sub @ rest)" by (rule starts_with_append)
  then show ?thesis using Cons by simp
qed

lemma contains_append: "contains sub (pre @ sub @ rest)"
proof (induction pre)
  case Nil
  show ?case by (simp add: contains_prefix)
next
  case (Cons c pre)
  then show ?case by simp
qed

lemma contains_positive:
  "contains ''positive'' (''Invalid amount: '' @ x @ '' (must be positive)'')"
proof -
  have "''Invalid amount: '' @ x @ '' (must be positive)''
          = (''Invalid amount: '' @ x @ '' (must be '') @ ''positive'' @ '')''"
    by simp
  then show ?thesis using contains_append[of "''positive''"] by metis
qed

lemma validate_event_amount_rule:
  "reaches_amount_rule E p \<Longrightarrow> validate_event E p = validate_amount E p"
  unfolding validate_event_def Let_def missing_fields reaches_amount_rule_def
  by (auto split: option.splits jval.splits)

lemma validate_amount_valid:
  assumes "p_event_type p = Some ''purchase''" and "fst (validate_amount E p)"
  shows "\<exists>a f. p_amount p = Some a \<and> a \<noteq> JNull \<and> py_float E a = Inr f \<and> \<not> le_zero f"
  using assms
  by (auto simp add: validate_amount_def
      split: option.splits jval.splits sum.splits exc.splits if_splits)

lemma validate_amount_missing:
  assumes "p_event_type p = Some ''purchase''" and "p_amount p = None \<or> p_amount p = Some JNull"
  shows "validate_amount E p = (False, Some missing_amount)"
  using assms by (auto simp add: validate_amount_def missing_amount_def)

lemma validate_amount_raised:
  assumes "p_event_type p = Some ''purchase''" and "p_amount p = Some a" and "a \<noteq> JNull"
    and "py_float E a = Inl e"
  shows "validate_amount E p =
           (False, Some (if not_numeric_error e then ''Amount not numeric: '' @ format_value E a
                         else ''Validation error: '' @ message e))"
  using assms by (cases a; cases e) (simp_all add: validate_amount_def)

lemma validate_amount_converted:
  assumes "p_event_type p = Some ''purchase''" and "p_amount p = Some a" and "a \<noteq> JNull"
    and "py_float E a = Inr f"
  shows "validate_amount E p =
           (if le_zero f
            then (False, Some (''Invalid amount: '' @ format_value E (JNum f) @
                               '' (must be positive)''))
            else (True, None))"
  using assms by (cases a) (simp_all add: validate_amount_def)

lemma py_float_raises:
  assumes "py_float E a = Inl e" and "\<not> not_numeric_error e"
  shows "\<exists>n. a = JInt n \<and> float_max_int \<le> \<bar>n\<bar>
              \<and> e = OverflowError ''int too large to convert to float''"
  using assms by (cases a) (auto split: option.splits if_splits)

lemma le_zero_not_positive: "f \<noteq> NaN \<Longrightarrow> le_zero f \<longleftrightarrow> \<not> strictly_positive f"
  by (cases f) auto

lemma positive_not_le_zero: "strictly_positive f \<Longrightarrow> \<not> le_zero f"
  by (cases f) auto

lemma validate_event_valid_amount:
  assumes "fst (validate_event E p)"
  shows "fst (validate_amount E p)"
  using assms unfolding validate_event_def Let_def
  by (auto split: if_splits option.splits jval.splits)

lemma rollback_SessionLocal: "rollback (SessionLocal d) = SessionLocal d"
  by (simp add: rollback_def SessionLocal_def)

lemma process_message_raised_tables:
  assumes "store_event E (store_faults env) (SessionLocal (db w)) (m_value msg) = (Inl e, s)"
  shows "users (db (process_message E env msg w)) = users (db w)
         \<and> user_events (db (process_message E env msg w)) = user_events (db w)
         \<and> user_stats (db (process_message E env msg w)) = user_stats (db w)"
proof -
  from assms obtain s2 where
    t: "store_event_try E (store_faults env) (SessionLocal (db w)) (m_value msg) = (Inl e, s2)"
    and r: "s = rollback s2"
    using store_event_Inl by blast
  have "committed s2 = committed (SessionLocal (db w))" using t by (rule store_event_try_Inl)
  then have cs: "committed s = db w" and ws: "working s = db w"
    by (simp_all add: r rollback_def SessionLocal_def)
  let ?S = "if is_ValueError e then SessionLocal (committed s) else s"
  have S: "committed ?S = db w" "working ?S = db w"
    using cs ws by (simp_all add: SessionLocal_def)
  have d: "db (process_message E env msg w)
             = committed (snd (log_dead_letter (dlq_fault env) ?S (m_value msg) (message e)
                 (if is_ValueError e then ''ValueError'' else class_name e) ''pending''))"
    by (simp add: process_message_raised[OF assms] commit_offset_db bump_db)
  show ?thesis
  proof (cases "dlq_fault env")
    case None
    then show ?thesis using S by (simp add: d log_dead_letter_ok)
  next
    case (Some err)
    then show ?thesis using S by (simp add: d log_dead_letter_failed)
  qed
qed

text \<open>
  Claim C7, as the code has it. A valid purchase has an amount that is present, not null
  and converted by \<^verbatim>\<open>float()\<close>, and the converted amount, when it is not \<^verbatim>\<open>NaN\<close>, is
  strictly positive, \<^verbatim>\<open>Infinity\<close> counting as positive: there is no test for finiteness.
  (What validation does with \<^verbatim>\<open>NaN\<close> is not part of this statement.) For a purchase that
  passes the earlier rules, each failure has a reason of its own: a missing or null amount;
  an amount for which \<^verbatim>\<open>float()\<close> raises \<^verbatim>\<open>TypeError\<close> or \<^verbatim>\<open>ValueError\<close>; an amount
  that is converted and is not strictly positive, whose reason contains \<open>positive\<close>; and a
  JSON integer too large for a float, the one value for which \<^verbatim>\<open>float()\<close> raises another
  exception, which fails with the general validation-error reason. Every amount that
  \<^verbatim>\<open>float()\<close> converts to a strictly positive value passes, in particular every
  positive integer below \<open>2 ^ 1024 - 2 ^ 970\<close>. A payload that fails validation makes
  \<^verbatim>\<open>store_event\<close> raise \<^verbatim>\<open>ValueError\<close> with the session untouched, and the loop leaves
  the user, event and statistics tables as they were.
\<close>

theorem purchase_amount_rule:
  "(p_event_type p = Some ''purchase'' \<and> fst (validate_event E p)
      \<longrightarrow> (\<exists>a f. p_amount p = Some a \<and> a \<noteq> JNull \<and> py_float E a = Inr f
                  \<and> (f \<noteq> NaN \<longrightarrow> strictly_positive f)))
   \<and> (reaches_amount_rule E p \<and> (p_amount p = None \<or> p_amount p = Some JNull)
      \<longrightarrow> validate_event E p = (False, Some missing_amount))
   \<and> (reaches_amount_rule E p \<and> p_amount p = Some a \<and> a \<noteq> JNull \<and> py_float E a = Inl e
        \<and> not_numeric_error e
      \<longrightarrow> validate_event E p = (False, Some (''Amount not numeric: '' @ format_value E a)))
   \<and> (reaches_amount_rule E p \<and> p_amount p = Some a \<and> a \<noteq> JNull \<and> py_float E a = Inl e
        \<and> \<not> not_numeric_error e
      \<longrightarrow> validate_event E p = (False, Some (''Validation error: '' @ message e))
          \<and> (\<exists>n. a = JInt n \<and> float_max_int \<le> \<bar>n\<bar>
                   \<and> e = OverflowError ''int too large to convert to float''))
   \<and> (reaches_amount_rule E p \<and> p_amount p = Some a \<and> a \<noteq> JNull \<and> py_float E a = Inr f
        \<and> f \<noteq> NaN \<and> \<not> strictly_positive f
      \<longrightarrow> validate_event E p
            = (False, Some (''Invalid amount: '' @ format_value E (JNum f) @ '' (must be positive)''))
          \<and> contains ''positive''
               (''Invalid amount: '' @ format_value E (JNum f) @ '' (must be positive)''))
   \<and> (reaches_amount_rule E p \<and> p_amount p = Some a \<and> a \<noteq> JNull \<and> py_float E a = Inr f
        \<and> strictly_positive f
      \<longrightarrow> validate_event E p = (True, None))
   \<and> (reaches_amount_rule E p \<and> p_amount p = Some (JInt n) \<and> 0 < n \<and> n < float_max_int
      \<longrightarrow> validate_event E p = (True, None))
   \<and> missing_amount \<noteq> ''Amount not numeric: '' @ x
   \<and> missing_amount \<noteq> ''Invalid amount: '' @ y
   \<and> missing_amount \<noteq> ''Validation error: '' @ z
   \<and> ''Amount not numeric: '' @ x \<noteq> ''Invalid amount: '' @ y
   \<and> ''Amount not numeric: '' @ x \<noteq> ''Validation error: '' @ z
   \<and> ''Invalid amount: '' @ y \<noteq> ''Validation error: '' @ z
   \<and> (\<not> fst (validate_event E (m_value msg))
      \<longrightarrow> (\<exists>m. store_event E (store_faults env) (SessionLocal (db w)) (m_value msg)
                  = (Inl (ValueError m), SessionLocal (db w)))
          \<and> users (db (process_message E env msg w)) = users (db w)
          \<and> user_events (db (process_message E env msg w)) = user_events (db w)
          \<and> user_stats (db (process_message E env msg w)) = user_stats (db w))"
proof -
  have k: "p_event_type p = Some ''purchase''" if "reaches_amount_rule E p"
    using that by (simp add: reaches_amount_rule_def)
  have c1: "\<exists>a f. p_amount p = Some a \<and> a \<noteq> JNull \<and> py_float E a = Inr f
                  \<and> (f \<noteq> NaN \<longrightarrow> strictly_positive f)"
    if a: "p_event_type p = Some ''purchase'' \<and> fst (validate_event E p)"
  proof -
    from a obtain a0 f0 where
      h: "p_amount p = Some a0 \<and> a0 \<noteq> JNull \<and> py_float E a0 = Inr f0 \<and> \<not> le_zero f0"
      using validate_event_valid_amount validate_amount_valid by blast
    then have "f0 \<noteq> NaN \<longrightarrow> strictly_positive f0" using le_zero_not_positive by blast
    with h show ?thesis by blast
  qed
  have c2: "validate_event E p = (False, Some missing_amount)"
    if "reaches_amount_rule E p \<and> (p_amount p = None \<or> p_amount p = Some JNull)"
    using that k validate_amount_missing by (simp add: validate_event_amount_rule)
  have c3: "validate_event E p = (False, Some (''Amount not numeric: '' @ format_value E a))"
    if a: "reaches_amount_rule E p \<and> p_amount p = Some a \<and> a \<noteq> JNull \<and> py_float E a = Inl e
        \<and> not_numeric_error e"
  proof -
    have "validate_amount E p =
           (False, Some (if not_numeric_error e then ''Amount not numeric: '' @ format_value E a
                         else ''Validation error: '' @ message e))"
      using a k validate_amount_raised by blast
    then show ?thesis using a by (simp add: validate_event_amount_rule)
  qed
  have c4: "validate_event E p = (False, Some (''Validation error: '' @ message e))
          \<and> (\<exists>n. a = JInt n \<and> float_max_int \<le> \<bar>n\<bar>
                   \<and> e = OverflowError ''int too large to convert to float'')"
    if a: "reaches_amount_rule E p \<and> p_amount p = Some a \<and> a \<noteq> JNull \<and> py_float E a = Inl e
        \<and> \<not> not_numeric_error e"
  proof -
    have "validate_amount E p =
           (False, Some (if not_numeric_error e then ''Amount not numeric: '' @ format_value E a
                         else ''Validation error: '' @ message e))"
      using a k validate_amount_raised by blast
    then have "validate_event E p = (False, Some (''Validation error: '' @ message e))"
      using a by (simp add: validate_event_amount_rule)
    then show ?thesis using a py_float_raises by blast
  qed
  have conv: "validate_event E p =
           (if le_zero f
            then (False, Some (''Invalid amount: '' @ format_value E (JNum f) @
                               '' (must be positive)''))
            else (True, None))"
    if a: "reaches_amount_rule E p \<and> p_amount p = Some a \<and> a \<noteq> JNull \<and> py_float E a = Inr f"
    for a f
  proof -
    have "validate_amount E p =
           (if le_zero f
            then (False, Some (''Invalid amount: '' @ format_value E (JNum f) @
                               '' (must be positive)''))
            else (True, None))"
      using a k validate_amount_converted by blast
    then show ?thesis using a by (simp add: validate_event_amount_rule)
  qed
  have c5: "validate_event E p
            = (False, Some (''Invalid amount: '' @ format_value E (JNum f) @ '' (must be positive)''))"
    if a: "reaches_amount_rule E p \<and> p_amount p = Some a \<and> a \<noteq> JNull \<and> py_float E a = Inr f
        \<and> f \<noteq> NaN \<and> \<not> strictly_positive f"
  proof -
    have "le_zero f" using a le_zero_not_positive by blast
    then show ?thesis using a conv[of a f] by simp
  qed
  have c6: "validate_event E p = (True, None)"
    if a: "reaches_amount_rule E p \<and> p_amount p = Some a \<and> a \<noteq> JNull \<and> py_float E a = Inr f
        \<and> strictly_positive f"
  proof -
    have "\<not> le_zero f" using a positive_not_le_zero by blast
    then show ?thesis using a conv[of a f] by simp
  qed
  have c7: "validate_event E p = (True, None)"
    if a: "reaches_amount_rule E p \<and> p_amount p = Some (JInt n) \<and> 0 < n \<and> n < float_max_int"
  proof -
    have "py_float E (JInt n) = Inr (Fin (of_int n))" using a by simp
    moreover have "\<not> le_zero (Fin (of_int n))" using a by simp
    ultimately show ?thesis using a conv[of "JInt n" "Fin (of_int n)"] by simp
  qed
  have c8: "missing_amount \<noteq> ''Amount not numeric: '' @ x"
    "missing_amount \<noteq> ''Invalid amount: '' @ y"
    "missing_amount \<noteq> ''Validation error: '' @ z"
    "''Amount not numeric: '' @ x \<noteq> ''Invalid amount: '' @ y"
    "''Amount not numeric: '' @ x \<noteq> ''Validation error: '' @ z"
    "''Invalid amount: '' @ y \<noteq> ''Validation error: '' @ z"
    by (simp_all add: missing_amount_def)
  have c9: "(\<exists>m. store_event E (store_faults env) (SessionLocal (db w)) (m_value msg)
                  = (Inl (ValueError m), SessionLocal (db w)))
          \<and> users (db (process_message E env msg w)) = users (db w)
          \<and> user_events (db (process_message E env msg w)) = user_events (db w)
          \<and> user_stats (db (process_message E env msg w)) = user_stats (db w)"
    if n: "\<not> fst (validate_event E (m_value msg))"
  proof -
    let ?m = "case snd (validate_event E (m_value msg)) of None \<Rightarrow> ''None'' | Some m \<Rightarrow> m"
    have t: "store_event_try E (store_faults env) (SessionLocal (db w)) (m_value msg)
               = (Inl (ValueError ?m), SessionLocal (db w))"
      using n by (rule validate_event_invalid)
    have se: "store_event E (store_faults env) (SessionLocal (db w)) (m_value msg)
               = (Inl (ValueError ?m), SessionLocal (db w))"
      using store_event_handler[OF t] by (simp add: duplicate_key_def rollback_SessionLocal)
    show ?thesis using se process_message_raised_tables[OF se] by blast
  qed
  have p1: "(reaches_amount_rule E p \<and> p_amount p = Some a \<and> a \<noteq> JNull \<and> py_float E a = Inr f
        \<and> f \<noteq> NaN \<and> \<not> strictly_positive f
      \<longrightarrow> validate_event E p
            = (False, Some (''Invalid amount: '' @ format_value E (JNum f) @ '' (must be positive)''))
          \<and> contains ''positive''
               (''Invalid amount: '' @ format_value E (JNum f) @ '' (must be positive)''))"
    using c5 contains_positive by blast
  show ?thesis using c1 c2 c3 c4 p1 c6 c7 c8 c9 by blast
qed

theorem purchase_amount_witness:
  "p_event_type purchase_50 = Some ''purchase'' \<and> fst (validate_event test_env purchase_50)
   \<and> (\<exists>a f. p_amount purchase_50 = Some a \<and> a \<noteq> JNull \<and> py_float test_env a = Inr f
              \<and> (f \<noteq> NaN \<longrightarrow> strictly_positive f))
   \<and> reaches_amount_rule test_env purchase_no_amount \<and> p_amount purchase_no_amount = None
   \<and> validate_event test_env purchase_no_amount = (False, Some missing_amount)
   \<and> reaches_amount_rule test_env purchase_abc
   \<and> (\<exists>m. py_float test_env (JStr ''abc'') = Inl (ValueError m))
   \<and> validate_event test_env purchase_abc
        = (False, Some (''Amount not numeric: '' @ format_value test_env (JStr ''abc'')))
   \<and> reaches_amount_rule test_env huge_purchase
   \<and> p_amount huge_purchase = Some (JInt (2 ^ 1024))
   \<and> py_float test_env (JInt (2 ^ 1024))
        = Inl (OverflowError ''int too large to convert to float'')
   \<and> validate_event test_env huge_purchase
        = (False, Some ''Validation error: int too large to convert to float'')
   \<and> reaches_amount_rule test_env bad_purchase
   \<and> validate_event test_env bad_purchase
        = (False, Some (''Invalid amount: '' @ format_value test_env (JNum (Fin (- 5)))
                         @ '' (must be positive)''))
   \<and> reaches_amount_rule test_env purchase_50
   \<and> validate_event test_env purchase_50 = (True, None)
   \<and> reaches_amount_rule test_env purchase_7 \<and> p_amount purchase_7 = Some (JInt 7)
   \<and> validate_event test_env purchase_7 = (True, None)
   \<and> \<not> fst (validate_event test_env (m_value (msg_at 0 bad_purchase)))
   \<and> users (db (process_message test_env ok_env (msg_at 0 bad_purchase) initial_world))
        = users (db initial_world)
   \<and> user_events (db (process_message test_env ok_env (msg_at 0 bad_purchase) initial_world))
        = user_events (db initial_world)
   \<and> user_stats (db (process_message test_env ok_env (msg_at 0 bad_purchase) initial_world))
        = user_stats (db initial_world)"
proof -
  let ?o = "OverflowError ''int too large to convert to float''"
  have k50: "p_event_type purchase_50 = Some ''purchase''" by code_simp
  have v50: "fst (validate_event test_env purchase_50)" by code_simp
  have r50: "reaches_amount_rule test_env purchase_50" by code_simp
  have a50: "p_amount purchase_50 = Some (JNum (Fin 50)) \<and> JNum (Fin 50) \<noteq> JNull
             \<and> py_float test_env (JNum (Fin 50)) = Inr (Fin 50) \<and> strictly_positive (Fin 50)"
    by (simp add: purchase_50_def event_def)
  have rna: "reaches_amount_rule test_env purchase_no_amount" by code_simp
  have ana: "p_amount purchase_no_amount = None" by (simp add: purchase_no_amount_def event_def)
  have rabc: "reaches_amount_rule test_env purchase_abc" by code_simp
  have fabc: "py_float test_env (JStr ''abc'')
                = Inl (ValueError (''could not convert string to float: ''
                                   @ repr_str test_env ''abc''))"
    by code_simp
  have nabc: "not_numeric_error (ValueError (''could not convert string to float: ''
                                   @ repr_str test_env ''abc''))"
    by simp
  have aabc: "p_amount purchase_abc = Some (JStr ''abc'') \<and> JStr ''abc'' \<noteq> JNull"
    by (simp add: purchase_abc_def event_def)
  have rhuge: "reaches_amount_rule test_env huge_purchase"
    by (simp add: reaches_amount_rule_def huge_purchase_def event_def test_env_def)
  have ahuge: "p_amount huge_purchase = Some (JInt (2 ^ 1024)) \<and> JInt (2 ^ 1024) \<noteq> JNull"
    by (simp add: huge_purchase_def event_def)
  have fhuge: "py_float test_env (JInt (2 ^ 1024)) = Inl ?o"
    by (simp add: float_max_int_def)
  have nhuge: "\<not> not_numeric_error ?o" by simp
  have rbad: "reaches_amount_rule test_env bad_purchase" by code_simp
  have abad: "p_amount bad_purchase = Some (JNum (Fin (- 5))) \<and> JNum (Fin (- 5)) \<noteq> JNull
              \<and> py_float test_env (JNum (Fin (- 5))) = Inr (Fin (- 5))
              \<and> Fin (- 5) \<noteq> NaN \<and> \<not> strictly_positive (Fin (- 5))"
    by (simp add: bad_purchase_def event_def)
  have r7: "reaches_amount_rule test_env purchase_7" by code_simp
  have a7: "p_amount purchase_7 = Some (JInt 7) \<and> (0::int) < 7 \<and> 7 < float_max_int"
    by (simp add: purchase_7_def event_def float_max_int_def)
  have nbad: "\<not> fst (validate_event test_env (m_value (msg_at 0 bad_purchase)))" by code_simp
  have w1: "\<exists>a f. p_amount purchase_50 = Some a \<and> a \<noteq> JNull \<and> py_float test_env a = Inr f
              \<and> (f \<noteq> NaN \<longrightarrow> strictly_positive f)"
    using purchase_amount_rule [where p = purchase_50 and E = test_env,
       THEN conjunct1] k50 v50 by blast
  have w2: "validate_event test_env purchase_no_amount = (False, Some missing_amount)"
    using purchase_amount_rule [where p = purchase_no_amount and E = test_env,
       THEN conjunct2, THEN conjunct1] rna ana by blast
  have w3: "validate_event test_env purchase_abc
        = (False, Some (''Amount not numeric: '' @ format_value test_env (JStr ''abc'')))"
    using purchase_amount_rule [where p = purchase_abc and E = test_env and a = "JStr ''abc''",
       THEN conjunct2, THEN conjunct2, THEN conjunct1]
      rabc aabc fabc nabc by blast
  have w4: "validate_event test_env huge_purchase
        = (False, Some (''Validation error: '' @ message ?o))"
    using purchase_amount_rule [where p = huge_purchase and E = test_env
        and a = "JInt (2 ^ 1024)" and e = ?o,
       THEN conjunct2, THEN conjunct2, THEN conjunct2, THEN conjunct1] rhuge ahuge fhuge nhuge by blast
  have w5: "validate_event test_env bad_purchase
        = (False, Some (''Invalid amount: '' @ format_value test_env (JNum (Fin (- 5)))
                         @ '' (must be positive)''))"
    using purchase_amount_rule [where p = bad_purchase and E = test_env
        and a = "JNum (Fin (- 5))" and f = "Fin (- 5)",
       THEN conjunct2, THEN conjunct2, THEN conjunct2, THEN conjunct2,
       THEN conjunct1] rbad abad by blast
  have w6: "validate_event test_env purchase_50 = (True, None)"
    using purchase_amount_rule [where p = purchase_50 and E = test_env
        and a = "JNum (Fin 50)" and f = "Fin 50",
       THEN conjunct2, THEN conjunct2, THEN conjunct2, THEN conjunct2,
       THEN conjunct2, THEN conjunct1] r50 a50 by blast
  have w7: "validate_event test_env purchase_7 = (True, None)"
    using purchase_amount_rule [where p = purchase_7 and E = test_env and n = 7,
       THEN conjunct2, THEN conjunct2, THEN conjunct2, THEN conjunct2,
       THEN conjunct2, THEN conjunct2, THEN conjunct1] r7 a7 by blast
  have w8: "users (db (process_message test_env ok_env (msg_at 0 bad_purchase) initial_world))
        = users (db initial_world)
   \<and> user_events (db (process_message test_env ok_env (msg_at 0 bad_purchase) initial_world))
        = user_events (db initial_world)
   \<and> user_stats (db (process_message test_env ok_env (msg_at 0 bad_purchase) initial_world))
        = user_stats (db initial_world)"
    using purchase_amount_rule [where E = test_env and msg = "msg_at 0 bad_purchase"
        and env = ok_env and w = initial_world,
       THEN conjunct2, THEN conjunct2, THEN conjunct2, THEN conjunct2,
       THEN conjunct2, THEN conjunct2, THEN conjunct2, THEN conjunct2,
       THEN conjunct2, THEN conjunct2, THEN conjunct2, THEN conjunct2,
       THEN conjunct2] nbad by blast
  have w4': "validate_event test_env huge_purchase
        = (False, Some ''Validation error: int too large to convert to float'')"
    using w4 by simp
  have fabc': "\<exists>m. py_float test_env (JStr ''abc'') = Inl (ValueError m)"
    using fabc by blast
  show ?thesis
    using k50 v50 w1 rna ana w2 rabc fabc' w3 rhuge ahuge fhuge w4' rbad w5 r50 w6 r7 a7 w7 nbad w8
    by blast
qed

text \<open>The claim as stated fails: a purchase whose amount is the float \<^verbatim>\<open>inf\<close> (the JSON
  token \<^verbatim>\<open>Infinity\<close>, which \<^verbatim>\<open>json.loads\<close> accepts) is not a finite number, yet it
  passes validation and is stored.\<close>

theorem infinite_amount_counterexample:
  "p_event_type infinite_purchase = Some ''purchase''
   \<and> p_amount infinite_purchase = Some (JNum PInf)
   \<and> validate_event test_env infinite_purchase = (True, None)
   \<and> fst (store_event test_env no_faults (SessionLocal empty_database) infinite_purchase)
        = Inr (Some ''e1'')"
  by code_simp

subsection \<open>Durations that are not numbers\<close>

lemma validate_event_timestamp:
  assumes "fst (validate_event E p)"
  shows "\<exists>t. parse_timestamp E (p_timestamp p) = Inr t"
  using assms unfolding validate_event_def Let_def parse_timestamp_def
  by (auto split: if_splits option.splits jval.splits)

lemma validate_event_ignores_duration:
  "validate_event E (p\<lparr>p_duration := v\<rparr>) = validate_event E p"
proof -
  have "filter (\<lambda>k. k \<notin> set (payload_keys (p\<lparr>p_duration := v\<rparr>))) REQUIRED_FIELDS
          = filter (\<lambda>k. k \<notin> set (payload_keys p)) REQUIRED_FIELDS"
    unfolding REQUIRED_FIELDS_def filter.simps required_keys by simp
  moreover have "validate_amount E (p\<lparr>p_duration := v\<rparr>) = validate_amount E p"
    by (simp add: validate_amount_def)
  ultimately show ?thesis
    by (simp add: validate_event_def Let_def split: option.splits jval.splits)
qed

lemma step4a_duration_unparsable:
  assumes "parse_timestamp E (p_timestamp p) = Inr t"
    and "p_duration p = Some (JStr d)" and "d \<noteq> []" and "float_of_str E d = None"
  shows "step4a_duration E F s p =
           (Inl (ValueError (''could not convert string to float: '' @ repr_str E d)), s)"
  using assms by (simp add: step4a_duration_def)

lemma store_event_try_unparsable:
  assumes v: "fst (validate_event E p)"
    and d: "p_duration p = Some (JStr d)" "d \<noteq> []" "float_of_str E d = None"
    and n: "\<not> has_event p s"
    and f: "F QueryEvent = None" "F QueryUser = None" "F FlushUser = None"
  shows "\<exists>s1. store_event_try E F s p =
           (Inl (ValueError (''could not convert string to float: '' @ repr_str E d)), s1)"
proof -
  obtain t where t: "parse_timestamp E (p_timestamp p) = Inr t"
    using v validate_event_timestamp by blast
  have s4: "\<And>s'. step4a_duration E F s' p =
           (Inl (ValueError (''could not convert string to float: '' @ repr_str E d)), s')"
    using t d by (rule step4a_duration_unparsable)
  have "\<exists>s1. step3_user E F s p =
           (Inl (ValueError (''could not convert string to float: '' @ repr_str E d)), s1)"
    using f t by (simp add: step3_user_def s4 split: option.splits)
  moreover have "store_event_try E F s p = step3_user E F s p"
    using v n f
    by (cases "validate_event E p")
       (auto simp add: store_event_try_def step2_duplicate_def has_event_def split: option.splits)
  ultimately show ?thesis by simp
qed

text \<open>
  Claim C10, as the code has it. Validation does not look at the duration. For a valid
  payload whose event is not yet stored and whose duration is a non-empty string that
  \<^verbatim>\<open>float()\<close> rejects, \<^verbatim>\<open>store_event\<close> raises the \<^verbatim>\<open>ValueError\<close> of the conversion
  (the event lookup and the user lookup or insert having succeeded) and rolls back, so
  the database is as before, a newly flushed user included; the loop's
  \<^verbatim>\<open>ValueError\<close> handler then writes a dead-letter entry of type \<open>ValueError\<close>, counts the
  message as failed and commits the offset.
\<close>

theorem unparsable_string_duration_is_dead_lettered:
  "validate_event E (p\<lparr>p_duration := v\<rparr>) = validate_event E p
   \<and> (fst (validate_event E (m_value msg))
        \<and> p_duration (m_value msg) = Some (JStr d) \<and> d \<noteq> [] \<and> float_of_str E d = None
        \<and> \<not> has_event (m_value msg) (SessionLocal (db w))
        \<and> store_faults env QueryEvent = None \<and> store_faults env QueryUser = None
        \<and> store_faults env FlushUser = None
      \<longrightarrow> fst (store_event E (store_faults env) (SessionLocal (db w)) (m_value msg))
            = Inl (ValueError (''could not convert string to float: '' @ repr_str E d))
          \<and> snd (store_event E (store_faults env) (SessionLocal (db w)) (m_value msg))
            = SessionLocal (db w)
          \<and> counters (process_message E env msg w)
            = (counters w)\<lparr>dlq_logged := dlq_logged (counters w) + 1,
                            failed := failed (counters w) + 1\<rparr>
          \<and> (dlq_fault env = None
              \<longrightarrow> db (process_message E env msg w)
                  = (db w)\<lparr>dead_letter_queue := dead_letter_queue (db w) @
                       [dlq_entry msg
                          (''could not convert string to float: '' @ repr_str E d)
                          ''ValueError'']\<rparr>)
          \<and> (broker_ok env
              \<longrightarrow> committed_offsets (process_message E env msg w) (m_partition msg)
                  = Some (m_offset msg + 1)))"
proof -
  let ?m = "''could not convert string to float: '' @ repr_str E d"
  let ?r = "store_event E (store_faults env) (SessionLocal (db w)) (m_value msg)"
  have main: "fst ?r = Inl (ValueError ?m) \<and> snd ?r = SessionLocal (db w)
          \<and> counters (process_message E env msg w)
            = (counters w)\<lparr>dlq_logged := dlq_logged (counters w) + 1,
                            failed := failed (counters w) + 1\<rparr>
          \<and> (dlq_fault env = None
              \<longrightarrow> db (process_message E env msg w)
                  = (db w)\<lparr>dead_letter_queue := dead_letter_queue (db w) @
                       [dlq_entry msg ?m ''ValueError'']\<rparr>)
          \<and> (broker_ok env
              \<longrightarrow> committed_offsets (process_message E env msg w) (m_partition msg)
                  = Some (m_offset msg + 1))"
    if a: "fst (validate_event E (m_value msg))
        \<and> p_duration (m_value msg) = Some (JStr d) \<and> d \<noteq> [] \<and> float_of_str E d = None
        \<and> \<not> has_event (m_value msg) (SessionLocal (db w))
        \<and> store_faults env QueryEvent = None \<and> store_faults env QueryUser = None
        \<and> store_faults env FlushUser = None"
  proof -
    obtain s1 where t: "store_event_try E (store_faults env) (SessionLocal (db w)) (m_value msg)
                          = (Inl (ValueError ?m), s1)"
      using a store_event_try_unparsable[of E "m_value msg" d "SessionLocal (db w)" "store_faults env"]
      by blast
    have se: "?r = (Inl (ValueError ?m), rollback s1)"
      using store_event_handler[OF t] by (simp add: duplicate_key_def)
    have "committed s1 = committed (SessionLocal (db w))" using t by (rule store_event_try_Inl)
    then have rb: "rollback s1 = SessionLocal (db w)"
      by (simp add: rollback_def SessionLocal_def)
    note pm = process_message_raised[OF se]
    have c: "counters (process_message E env msg w)
            = (counters w)\<lparr>dlq_logged := dlq_logged (counters w) + 1,
                            failed := failed (counters w) + 1\<rparr>"
      by (simp add: pm commit_offset_counters bump_fields)
    have dl: "db (process_message E env msg w)
                  = (db w)\<lparr>dead_letter_queue := dead_letter_queue (db w) @
                       [dlq_entry msg ?m ''ValueError'']\<rparr>"
      if "dlq_fault env = None"
      using that
      by (simp add: pm rb commit_offset_db bump_db log_dead_letter_ok dlq_entry_def
          SessionLocal_def)
    show ?thesis using se rb c dl process_message_commits by simp
  qed
  show ?thesis using validate_event_ignores_duration main by blast
qed

theorem unparsable_string_duration_witness:
  "fst (validate_event test_env (m_value (msg_at 3 abc_duration)))
   \<and> p_duration (m_value (msg_at 3 abc_duration)) = Some (JStr ''abc'')
   \<and> float_of_str test_env ''abc'' = None
   \<and> \<not> has_event (m_value (msg_at 3 abc_duration)) (SessionLocal (db initial_world))
   \<and> fst (store_event test_env (store_faults ok_env) (SessionLocal (db initial_world))
            (m_value (msg_at 3 abc_duration)))
        = Inl (ValueError (''could not convert string to float: '' @ [CHR 0x27] @ ''abc''
                           @ [CHR 0x27]))
   \<and> users (committed (snd (store_event test_env (store_faults ok_env)
        (SessionLocal (db initial_world)) (m_value (msg_at 3 abc_duration))))) = []
   \<and> failed (counters (process_message test_env ok_env (msg_at 3 abc_duration) initial_world)) = 1
   \<and> map d_error_type (dead_letter_queue
        (db (process_message test_env ok_env (msg_at 3 abc_duration) initial_world)))
        = [''ValueError'']
   \<and> committed_offsets (process_message test_env ok_env (msg_at 3 abc_duration) initial_world) 0
        = Some 4"
proof -
  let ?msg = "msg_at 3 abc_duration"
  let ?m = "''could not convert string to float: '' @ [CHR 0x27] @ ''abc'' @ [CHR 0x27]"
  have h1: "fst (validate_event test_env (m_value ?msg))" by code_simp
  have h2: "p_duration (m_value ?msg) = Some (JStr ''abc'')" by code_simp
  have h3: "''abc'' \<noteq> []" by simp
  have h4: "float_of_str test_env ''abc'' = None" by code_simp
  have h5: "\<not> has_event (m_value ?msg) (SessionLocal (db initial_world))" by code_simp
  have h6: "store_faults ok_env QueryEvent = None \<and> store_faults ok_env QueryUser = None
            \<and> store_faults ok_env FlushUser = None"
    by (simp add: ok_env_def no_faults_def)
  have h7: "dlq_fault ok_env = None \<and> broker_ok ok_env" by (simp add: ok_env_def)
  have h8: "''could not convert string to float: '' @ repr_str test_env ''abc'' = ?m"
    by (simp add: test_env_def apostrophe_def)
  note t = unparsable_string_duration_is_dead_lettered
      [where E = test_env and msg = ?msg and d = "''abc''" and w = initial_world and env = ok_env]
  have c: "fst (store_event test_env (store_faults ok_env) (SessionLocal (db initial_world))
                 (m_value ?msg)) = Inl (ValueError ?m)
          \<and> snd (store_event test_env (store_faults ok_env) (SessionLocal (db initial_world))
                 (m_value ?msg)) = SessionLocal (db initial_world)
          \<and> counters (process_message test_env ok_env ?msg initial_world)
            = (counters initial_world)\<lparr>dlq_logged := dlq_logged (counters initial_world) + 1,
                            failed := failed (counters initial_world) + 1\<rparr>
          \<and> db (process_message test_env ok_env ?msg initial_world)
                  = (db initial_world)\<lparr>dead_letter_queue := dead_letter_queue (db initial_world) @
                       [dlq_entry ?msg ?m ''ValueError'']\<rparr>
          \<and> committed_offsets (process_message test_env ok_env ?msg initial_world)
                (m_partition ?msg) = Some (m_offset ?msg + 1)"
    using t h1 h2 h3 h4 h5 h6 h7 unfolding h8 by blast
  have i: "failed (counters initial_world) = 0" "dead_letter_queue (db initial_world) = []"
    "users (db initial_world) = []"
    by (simp_all add: initial_world_def empty_database_def)
  have r1: "users (committed (snd (store_event test_env (store_faults ok_env)
        (SessionLocal (db initial_world)) (m_value ?msg)))) = []"
    using c i by (simp add: SessionLocal_def)
  have r2: "failed (counters (process_message test_env ok_env ?msg initial_world)) = 1"
    using c i by simp
  have r3: "map d_error_type (dead_letter_queue
        (db (process_message test_env ok_env ?msg initial_world))) = [''ValueError'']"
    using c i by (simp add: dlq_entry_def)
  have r4: "committed_offsets (process_message test_env ok_env ?msg initial_world) 0 = Some 4"
    using c by (simp add: msg_at_def)
  show ?thesis using h1 h2 h4 h5 c r1 r2 r3 r4 by blast
qed

text \<open>The claim as stated fails for durations that are not non-empty strings. A list is
  present and no number, but \<^verbatim>\<open>float()\<close> raises \<^verbatim>\<open>TypeError\<close>, so the loop's general
  handler records it as \<open>TypeError\<close>. The empty string is present and no number, but it is
  false in \<^verbatim>\<open>if duration_value:\<close>, so no conversion is attempted and no
  \<^verbatim>\<open>ValueError\<close> is raised.\<close>

theorem unparsable_duration_counterexample:
  "fst (validate_event test_env list_duration)
   \<and> p_duration list_duration = Some (JArr [JNum (Fin 1)])
   \<and> py_float test_env (JArr [JNum (Fin 1)])
        = Inl (TypeError (float_type_error ''list''))
   \<and> fst (store_event test_env no_faults (SessionLocal empty_database) list_duration)
        = Inl (TypeError (float_type_error ''list''))
   \<and> map d_error_type (dead_letter_queue
        (db (process_message test_env ok_env (msg_at 3 list_duration) initial_world)))
        = [''TypeError'']
   \<and> fst (validate_event test_env empty_duration)
   \<and> p_duration empty_duration = Some (JStr [])
   \<and> float_of_str test_env [] = None
   \<and> (case fst (store_event test_env no_faults (SessionLocal empty_database) empty_duration) of
         Inl e \<Rightarrow> \<not> is_ValueError e | Inr r \<Rightarrow> True)
   \<and> dead_letter_queue
        (db (process_message test_env ok_env (msg_at 3 empty_duration) initial_world)) = []"
  by code_simp

subsection \<open>The running average\<close>

text \<open>What an accepted event leaves in the committed database.\<close>

lemma step6_commit_result:
  "step6_commit F s p = (Inr r, s') \<Longrightarrow> committed s' = working s"
  by (auto simp add: step6_commit_def commit_def split: option.splits)

lemma step5_update_result:
  assumes "step5_update E F s p t d n st = (Inr r, s')"
  shows "\<exists>st'. update_stats E p t d n st = Inr st'
           \<and> committed s' = (working s)\<lparr>user_stats := write_stats st' (user_stats (working s))\<rparr>"
  using assms
  by (auto simp add: step5_update_def split: sum.splits dest!: step6_commit_result)

lemma step5_stats_result:
  assumes "step5_stats E F s p t d n = (Inr r, s')"
  shows "\<exists>st'. update_stats E p t d n (loaded_stats p (user_stats (working s))) = Inr st'
           \<and> committed s' = (working s)\<lparr>user_stats :=
                 write_stats st' (stats_rows p (user_stats (working s)))\<rparr>"
  using assms
  by (auto simp add: step5_stats_def loaded_stats_def stats_rows_def
      split: option.splits dest!: step5_update_result)

lemma step4b_event_result:
  assumes "step4b_event E F s p t d n = (Inr r, s')"
  shows "\<exists>st'. update_stats E p t d n (loaded_stats p (user_stats (working s))) = Inr st'
           \<and> committed s' = (working s)\<lparr>
                 user_events := user_events (working s) @ [new_event p t],
                 user_stats := write_stats st' (stats_rows p (user_stats (working s)))\<rparr>"
proof -
  let ?s = "s\<lparr>working := (working s)\<lparr>user_events := user_events (working s) @ [new_event p t]\<rparr>\<rparr>"
  from assms have "step5_stats E F ?s p t d n = (Inr r, s')"
    by (auto simp add: step4b_event_def new_event_def split: option.splits)
  from step5_stats_result[OF this] show ?thesis by simp
qed

lemma step4a_duration_result:
  assumes "step4a_duration E F s p = (Inr r, s')"
  shows "\<exists>t st'. parse_timestamp E (p_timestamp p) = Inr t
           \<and> update_stats E p t (fst (duration_and_count E p (user_events (working s))))
                 (snd (duration_and_count E p (user_events (working s))))
                 (loaded_stats p (user_stats (working s))) = Inr st'
           \<and> committed s' = (working s)\<lparr>
                 user_events := user_events (working s) @ [new_event p t],
                 user_stats := write_stats st' (stats_rows p (user_stats (working s)))\<rparr>"
proof -
  from assms obtain t where t: "parse_timestamp E (p_timestamp p) = Inr t"
    by (auto simp add: step4a_duration_def split: sum.splits)
  from assms t have "step4b_event E F s p t
                       (fst (duration_and_count E p (user_events (working s))))
                       (snd (duration_and_count E p (user_events (working s)))) = (Inr r, s')"
    by (auto simp add: step4a_duration_def duration_and_count_def
        split: option.splits sum.splits if_splits)
  from step4b_event_result[OF this] t show ?thesis by blast
qed

lemma step3_user_result:
  assumes "step3_user E F s p = (Inr r, s')"
  shows "\<exists>t st'. parse_timestamp E (p_timestamp p) = Inr t
           \<and> update_stats E p t (fst (duration_and_count E p (user_events (working s))))
                 (snd (duration_and_count E p (user_events (working s))))
                 (loaded_stats p (user_stats (working s))) = Inr st'
           \<and> user_events (committed s') = user_events (working s) @ [new_event p t]
           \<and> user_stats (committed s') = write_stats st' (stats_rows p (user_stats (working s)))"
proof -
  from assms obtain s0 where a: "step4a_duration E F s0 p = (Inr r, s')"
    and e: "user_events (working s0) = user_events (working s)"
    and u: "user_stats (working s0) = user_stats (working s)"
    by (auto simp add: step3_user_def split: option.splits sum.splits)
  from step4a_duration_result[OF a] show ?thesis by (auto simp add: e u)
qed

lemma store_event_accepted_result:
  assumes "store_event E F s p = (Inr (Some eid), s')" and "\<not> has_event p s"
  shows "\<exists>t st'. parse_timestamp E (p_timestamp p) = Inr t
           \<and> update_stats E p t (fst (duration_and_count E p (user_events (working s))))
                 (snd (duration_and_count E p (user_events (working s))))
                 (loaded_stats p (user_stats (working s))) = Inr st'
           \<and> user_events (committed s') = user_events (working s) @ [new_event p t]
           \<and> user_stats (committed s') = write_stats st' (stats_rows p (user_stats (working s)))"
proof -
  have "store_event_try E F s p = (Inr (Some eid), s')"
    using assms(1) by (rule store_event_Inr_Some)
  then have "step3_user E F s p = (Inr (Some eid), s')"
    using assms(2)
    by (auto simp add: store_event_try_def step2_duplicate_def has_event_def
        split: prod.splits bool.splits option.splits)
  then show ?thesis by (rule step3_user_result)
qed

lemma find_stats_rows: "find (\<lambda>r. s_user_id r = p_user_id p) (stats_rows p rows) \<noteq> None"
  by (auto simp add: stats_rows_def find_append_new new_stats_def split: option.splits)

lemma loaded_stats_user: "s_user_id (loaded_stats p rows) = p_user_id p"
  by (auto simp add: loaded_stats_def new_stats_def find_Some_iff split: option.splits)

lemma update_stats_average:
  "update_stats E p t d n st = Inr st' \<Longrightarrow>
     avg_session_duration st' = avg_session_duration (update_average d n st)"
  by (auto simp add: update_stats_def Let_def split: if_splits sum.splits)

lemma update_average_running:
  "avg_session_duration (update_average (Some d) (Some n) st)
     = running_average (avg_session_duration st) n d"
  by (simp add: update_average_def running_average_def)

text \<open>The running-average step, for the events on which the code performs it: an accepted
  event whose duration is true in Python's truth test and converts with \<^verbatim>\<open>float()\<close>.
  The count is taken over the events the session saw before the insert.\<close>

lemma running_average_step:
  assumes "store_event E F s p = (Inr (Some eid), s')" and "\<not> has_event p s"
    and "p_duration p = Some v" and "truthy v" and "py_float E v = Inr d"
  shows "\<exists>st'. find (\<lambda>r. s_user_id r = p_user_id p) (user_stats (committed s')) = Some st'
           \<and> avg_session_duration st'
               = running_average
                   (avg_session_duration (loaded_stats p (user_stats (working s))))
                   (int (length (filter (\<lambda>r. e_user_id r = p_user_id p \<and> has_duration r)
                                   (user_events (working s)))))
                   d"
proof -
  let ?n = "int (length (filter (\<lambda>r. e_user_id r = p_user_id p \<and> has_duration r)
                           (user_events (working s))))"
  let ?st = "loaded_stats p (user_stats (working s))"
  have dc: "duration_and_count E p (user_events (working s)) = (Some d, Some ?n)"
    using assms(3-5) by (simp add: duration_and_count_def)
  from store_event_accepted_result[OF assms(1,2)] obtain t st' where
    u: "update_stats E p t (Some d) (Some ?n) ?st = Inr st'"
    and w: "user_stats (committed s') = write_stats st' (stats_rows p (user_stats (working s)))"
    by (auto simp add: dc)
  have k: "s_user_id st' = p_user_id p"
    using update_stats_score(2)[OF u] loaded_stats_user by simp
  have "find (\<lambda>r. s_user_id r = p_user_id p) (user_stats (committed s')) = Some st'"
    unfolding w using k find_stats_rows by (rule find_write_stats)
  moreover have "avg_session_duration st' = running_average (avg_session_duration ?st) ?n d"
    using update_stats_average[OF u] by (simp add: update_average_running)
  ultimately show ?thesis by blast
qed

text \<open>With a duration that is false in the truth test (zero, the empty string, a JSON
  null) or absent, the average is not touched.\<close>

lemma falsy_duration_keeps_average:
  assumes "store_event E F s p = (Inr (Some eid), s')" and "\<not> has_event p s"
    and "p_duration p = None \<or> (\<exists>v. p_duration p = Some v \<and> \<not> truthy v)"
  shows "\<exists>st'. find (\<lambda>r. s_user_id r = p_user_id p) (user_stats (committed s')) = Some st'
           \<and> avg_session_duration st'
               = avg_session_duration (loaded_stats p (user_stats (working s)))"
proof -
  let ?st = "loaded_stats p (user_stats (working s))"
  have dc: "duration_and_count E p (user_events (working s)) = (None, None)"
    using assms(3) by (auto simp add: duration_and_count_def)
  from store_event_accepted_result[OF assms(1,2)] obtain t st' where
    u: "update_stats E p t None None ?st = Inr st'"
    and w: "user_stats (committed s') = write_stats st' (stats_rows p (user_stats (working s)))"
    by (auto simp add: dc)
  have k: "s_user_id st' = p_user_id p"
    using update_stats_score(2)[OF u] loaded_stats_user by simp
  have "find (\<lambda>r. s_user_id r = p_user_id p) (user_stats (committed s')) = Some st'"
    unfolding w using k find_stats_rows by (rule find_write_stats)
  moreover have "avg_session_duration st' = avg_session_duration ?st"
    using update_stats_average[OF u] by (simp add: update_average_def)
  ultimately show ?thesis by blast
qed

end
